theory Spec2Isabelle
  imports Complex_Main
begin

section \<open>Strings, characters and the Python primitives the scraper uses\<close>

text \<open>
  A Python \<open>str\<close> is modelled as a \<open>string\<close>; a \<open>char\<close> stands for the code point of
  the same number, so the model covers the strings whose code points are below 256. On
  those, \<open>\d\<close> is the ten ASCII digits and \<open>\s\<close> (and the whitespace of \<open>str.strip\<close>)
  is the set \<open>is_space\<close> below.

  A Python \<open>float\<close> is modelled by the rational number it is computed from: the decimal
  value of the matched literal, and exact division. Rounding to a binary double is not
  part of the model.
\<close>

datatype error = ValueError

definition is_digit :: "char \<Rightarrow> bool" where
  "is_digit c = (c \<in> set ''0123456789'')"

definition is_space :: "char \<Rightarrow> bool" where
  "is_space c = (c \<in> set [CHR 0x09, CHR 0x0A, CHR 0x0B, CHR 0x0C, CHR 0x0D,
                            CHR 0x1C, CHR 0x1D, CHR 0x1E, CHR 0x1F, CHR 0x20,
                            CHR 0x85, CHR 0xA0])"

text \<open>\<open>s.strip()\<close>: leading and trailing whitespace removed.\<close>

definition strip :: "string \<Rightarrow> string" where
  "strip s = rev (dropWhile is_space (rev (dropWhile is_space s)))"

text \<open>The value of a run of ASCII digits, read in base ten.\<close>

definition digit_value :: "char \<Rightarrow> nat" where
  "digit_value c = of_char c - 48"

definition digits_value :: "string \<Rightarrow> nat" where
  "digits_value ds = foldl (\<lambda>a c. 10 * a + digit_value c) 0 ds"

text \<open>
  \<open>float(s)\<close> for a string \<open>s\<close> of digits and dots, which is all that group 1 of the
  price pattern can hold: digits with at most one dot and at least one digit convert,
  anything else (\<open>.\<close>, \<open>1.2.3\<close>) raises \<open>ValueError\<close>.
\<close>

definition py_float :: "string \<Rightarrow> error + rat" where
  "py_float s =
     (let ip = takeWhile is_digit s; rest = dropWhile is_digit s
      in if rest = [] then
           (if ip = [] then Inl ValueError else Inr (of_nat (digits_value ip)))
         else if hd rest = CHR ''.'' \<and> list_all is_digit (tl rest)
                 \<and> \<not> (ip = [] \<and> tl rest = []) then
           Inr (of_nat (digits_value ip)
                + of_nat (digits_value (tl rest)) / 10 ^ length (tl rest))
         else Inl ValueError)"

section \<open>The price projection\<close>

text \<open>
  \<open>re.sub(r'HKD\$?', '', s)\<close>: every occurrence of \<open>HKD\<close>, with a \<open>$\<close> right after it
  when there is one, is removed, scanning from the left; the text put back is not
  scanned again.
\<close>

function re_sub_hkd :: "string \<Rightarrow> string" where
  "re_sub_hkd [] = []"
| "re_sub_hkd (c # cs) =
     (if take 3 (c # cs) = ''HKD''
      then re_sub_hkd (if take 1 (drop 2 cs) = ''$'' then drop 3 cs else drop 2 cs)
      else c # re_sub_hkd cs)"
  by pat_completeness auto
termination
  by (relation "measure length") auto

definition is_number_char :: "char \<Rightarrow> bool" where
  "is_number_char c = (is_digit c \<or> c = CHR ''.'')"

text \<open>
  \<open>re.search(r'([\d.]+)\s*(M|Million|Millions)?', s, re.IGNORECASE)\<close>, as the pair of
  its groups 1 and 2, or \<open>None\<close> when there is no match. The match starts at the first
  digit or dot; group 1 is the whole run of digits and dots from there; after the
  whitespace that follows, group 2 is the letter \<open>M\<close> or \<open>m\<close> when it is there (the first
  alternative wins), and is unset otherwise.
\<close>

definition price_search :: "string \<Rightarrow> (string \<times> string option) option" where
  "price_search s =
     (let t = dropWhile (\<lambda>c. \<not> is_number_char c) s
      in if t = [] then None
         else let r = dropWhile is_space (dropWhile is_number_char t)
              in Some (takeWhile is_number_char t,
                       if r \<noteq> [] \<and> (hd r = CHR ''M'' \<or> hd r = CHR ''m'')
                       then Some [hd r] else None))"

text \<open>
  \<open>PropertyScraper.parse_price_to_millions\<close>. The argument is \<open>None\<close> or a string; the
  result is the exception raised (\<open>Inl\<close>) or the returned optional number (\<open>Inr\<close>).
\<close>

definition parse_price_to_millions :: "string option \<Rightarrow> error + rat option" where
  "parse_price_to_millions price_str =
     (case price_str of
        None \<Rightarrow> Inr None
      | Some s \<Rightarrow>
          if s = [] then Inr None
          else (case price_search (strip (re_sub_hkd s)) of
                  None \<Rightarrow> Inr None
                | Some (g1, g2) \<Rightarrow>
                    (case py_float g1 of
                       Inl e \<Rightarrow> Inl e
                     | Inr v \<Rightarrow>
                         (case g2 of
                            Some m \<Rightarrow> Inr (Some v)
                          | None \<Rightarrow> Inr (Some (v / 1000000))))))"

section \<open>The records\<close>

text \<open>
  The dataclasses \<open>Transaction\<close> and \<open>Property\<close>. Attributes that both classes declare
  carry the prefix \<open>txn_\<close> in the transaction record.
\<close>

record transaction =
  property_full_name :: string
  txn_estate_name :: string
  flat_info :: string
  location :: string
  sold_price :: "string option"
  sold_price_millions :: "rat option"
  registry_date :: "string option"
  txn_gross_area_sqft :: "int option"
  txn_saleable_area_sqft :: "int option"
  building_unit_price :: "string option"
  unit_price :: "string option"
  txn_bedrooms :: "int option"
  transaction_format :: "string option"
  txn_url :: "string option"

record property =
  url :: string
  property_id :: string
  location_breadcrumb :: "string option"
  estate_name :: "string option"
  full_address :: "string option"
  block_unit :: "string option"
  floor_info :: "string option"
  sell_price :: "string option"
  sell_price_millions :: "rat option"
  valuation :: "string option"
  valuation_millions :: "rat option"
  gross_area_sqft :: "int option"
  gross_area_unit_price :: "int option"
  saleable_area_sqft :: "int option"
  saleable_area_unit_price :: "int option"
  building_age_years :: "int option"
  bedrooms :: "int option"
  bathrooms :: "int option"
  pri_school_net :: "string option"
  sec_school_net :: "string option"
  transactions :: "transaction list"
  scraped_at :: string

text \<open>
  The constructor calls of the two parsers: the named arguments, every other attribute
  at its declared default. \<open>now\<close> is \<open>datetime.now().isoformat()\<close>.
\<close>

definition Transaction :: "string \<Rightarrow> transaction" where
  "Transaction u =
     \<lparr>property_full_name = [], txn_estate_name = [], flat_info = [], location = [],
      sold_price = None, sold_price_millions = None, registry_date = None,
      txn_gross_area_sqft = None, txn_saleable_area_sqft = None,
      building_unit_price = None, unit_price = None, txn_bedrooms = None,
      transaction_format = None, txn_url = Some u\<rparr>"

definition Property :: "string \<Rightarrow> string \<Rightarrow> string \<Rightarrow> property" where
  "Property u pid now =
     \<lparr>url = u, property_id = pid, location_breadcrumb = None, estate_name = None,
      full_address = None, block_unit = None, floor_info = None, sell_price = None,
      sell_price_millions = None, valuation = None, valuation_millions = None,
      gross_area_sqft = None, gross_area_unit_price = None, saleable_area_sqft = None,
      saleable_area_unit_price = None, building_age_years = None, bedrooms = None,
      bathrooms = None, pri_school_net = None, sec_school_net = None,
      transactions = [], scraped_at = now\<rparr>"

section \<open>Parsed pages\<close>

text \<open>
  The parsers read a page through BeautifulSoup. A parsed page is modelled by what the
  library answers to the queries the modelled code makes.

  An \<open>element\<close> is a text node found by \<open>soup.find(text=...)\<close>, as
  \<open>_extract_value_from_row\<close> sees it:
  \<^item> \<open>parent_tr\<close>: \<open>element.find_parent('tr')\<close>, as the \<open>get_text(strip=True)\<close> of each
    cell of \<open>find_all('td')\<close>; \<open>None\<close> when no row encloses the node;
  \<^item> \<open>parent_td\<close>: \<open>element.find_parent('td')\<close>, as the text of its
    \<open>find_next_sibling('td')\<close> (\<open>None\<close> inside when there is no sibling); \<open>None\<close> when no
    cell encloses the node;
  \<^item> \<open>parent_text\<close>: \<open>element.parent.get_text(strip=True)\<close>;
  \<^item> \<open>label_text\<close>: \<open>element.strip()\<close>.
\<close>

record element =
  parent_tr :: "string list option"
  parent_td :: "string option option"
  parent_text :: string
  label_text :: string

text \<open>
  A \<open>document\<close> is \<open>BeautifulSoup(html, 'html.parser')\<close>:
  \<^item> \<open>sell_price_td\<close>, \<open>valuation_td\<close>, \<open>sold_price_td\<close>:
    \<open>soup.find('td', text=re.compile(label))\<close> for the labels \<open>Sell\s*Price\<close>, \<open>Valuation\<close>
    and \<open>Sold Price\<close>, as the \<open>get_text(strip=True)\<close> of the cell's
    \<open>find_next_sibling('td')\<close> (\<open>None\<close> inside when there is no sibling); \<open>None\<close> when no
    cell matches;
  \<^item> \<open>sell_price_elem\<close>, \<open>valuation_elem\<close>, \<open>sold_price_elem\<close>:
    \<open>soup.find(text=re.compile(label))\<close> for the same labels;
  \<^item> \<open>page_text\<close>: \<open>soup.get_text()\<close>;
  \<^item> \<open>gross_area_td\<close>, \<open>saleable_area_td\<close>, \<open>building_age_td\<close>, \<open>rooms_td\<close> on a detail
    page, for the labels \<open>Gross Area\<close>, \<open>Saleable Area\<close>, \<open>Building age\<close> and
    \<open>Room and Bathroom\<close>, and \<open>txn_gross_area_td\<close>, \<open>txn_saleable_area_td\<close>, \<open>bedroom_td\<close>
    on a transaction page, for the labels \<open>Gross area\<close>, \<open>Saleable area\<close> and \<open>Bedroom\<close>:
    the same lookup, as the text of the sibling cell, or \<open>None\<close> when no cell matches or
    the cell has no sibling;
  \<^item> \<open>transaction_hrefs\<close>: the \<open>href\<close> of each link of
    \<open>soup.find_all('a', href=re.compile(r'/transaction/deal-\d+'))\<close>, in document order;
  \<^item> \<open>property_hrefs\<close>: the same for \<open>r'/property-\d+'\<close>.
\<close>

record document =
  sell_price_td :: "string option option"
  sell_price_elem :: "element option"
  page_text :: string
  valuation_td :: "string option option"
  valuation_elem :: "element option"
  gross_area_td :: "string option"
  saleable_area_td :: "string option"
  building_age_td :: "string option"
  rooms_td :: "string option"
  transaction_hrefs :: "string list"
  sold_price_td :: "string option option"
  sold_price_elem :: "element option"
  txn_gross_area_td :: "string option"
  txn_saleable_area_td :: "string option"
  bedroom_td :: "string option"
  property_hrefs :: "string list"

text \<open>\<open>text.replace(old, '')\<close>: the occurrences of \<open>old\<close> are removed, left to right.\<close>

function str_remove :: "string \<Rightarrow> string \<Rightarrow> string" where
  "str_remove old [] = []"
| "str_remove old (c # cs) =
     (if old \<noteq> [] \<and> take (length old) (c # cs) = old
      then str_remove old (drop (length old - 1) cs)
      else c # str_remove old cs)"
  by pat_completeness auto
termination
  by (relation "measure (\<lambda>(old, s). length s)") auto

text \<open>
  \<open>PropertyScraper._extract_value_from_row\<close> (the second definition in the class body,
  which is the one in force). A row wins over a cell; the second cell of the row, or the
  cell after the enclosing one, is the value; otherwise the parent's text with the label
  removed.
\<close>

definition extract_value_from_row :: "element \<Rightarrow> string" where
  "extract_value_from_row e =
     (let fallback = strip (str_remove (label_text e) (parent_text e))
      in case parent_tr e of
           Some cells \<Rightarrow> if 2 \<le> length cells then cells ! 1 else fallback
         | None \<Rightarrow>
             (case parent_td e of
                Some (Some next_cell) \<Rightarrow> next_cell
              | Some None \<Rightarrow> fallback
              | None \<Rightarrow> fallback))"

section \<open>The sell-price chain of the detail parser\<close>

text \<open>
  Case-insensitive matching of an ASCII word: \<open>ci_prefix w s\<close>, for a lower-case \<open>w\<close>,
  says that \<open>s\<close> starts with \<open>w\<close> in any mix of cases.
\<close>

definition to_lower :: "char \<Rightarrow> char" where
  "to_lower c =
     (case map_of (zip ''ABCDEFGHIJKLMNOPQRSTUVWXYZ'' ''abcdefghijklmnopqrstuvwxyz'') c of
        Some l \<Rightarrow> l
      | None \<Rightarrow> c)"

definition ci_prefix :: "string \<Rightarrow> string \<Rightarrow> bool" where
  "ci_prefix w s = (map to_lower (take (length w) s) = w)"

text \<open>\<open>re.search\<close>: the first position, from the left, at which the pattern matches.\<close>

fun re_search :: "(string \<Rightarrow> 'a option) \<Rightarrow> string \<Rightarrow> 'a option" where
  "re_search match_at [] = match_at []"
| "re_search match_at (c # cs) =
     (case match_at (c # cs) of
        Some g \<Rightarrow> Some g
      | None \<Rightarrow> re_search match_at cs)"

definition is_amount_char :: "char \<Rightarrow> bool" where
  "is_amount_char c = (is_digit c \<or> c = CHR ''.'' \<or> c = CHR '','')"

text \<open>
  The common tail of the three free-text patterns, \<open>HKD\$?([\d.,]+\s*(?:M|Million|Millions))\<close>
  under \<open>re.IGNORECASE\<close>, matched at the head of \<open>s\<close>; the result is group 1. The group
  ends with the letter \<open>M\<close> or \<open>m\<close>: the first alternative matches wherever a later one
  would.
\<close>

definition hkd_amount_at :: "string \<Rightarrow> string option" where
  "hkd_amount_at s =
     (if ci_prefix ''hkd'' s then
        (let r = (if take 1 (drop 3 s) = ''$'' then drop 4 s else drop 3 s);
             num = takeWhile is_amount_char r;
             sp = takeWhile is_space (dropWhile is_amount_char r);
             m = dropWhile is_space (dropWhile is_amount_char r)
         in if num \<noteq> [] \<and> m \<noteq> [] \<and> to_lower (hd m) = CHR ''m''
            then Some (num @ sp @ [hd m]) else None)
      else None)"

text \<open>\<open>Price[:\s]+HKD\$?(...)\<close> at the head of \<open>s\<close>.\<close>

definition price_hkd_amount_at :: "string \<Rightarrow> string option" where
  "price_hkd_amount_at s =
     (if ci_prefix ''price'' s
         \<and> takeWhile (\<lambda>c. c = CHR '':'' \<or> is_space c) (drop 5 s) \<noteq> []
      then hkd_amount_at (dropWhile (\<lambda>c. c = CHR '':'' \<or> is_space c) (drop 5 s))
      else None)"

text \<open>\<open>Sell\s*(?:Price:?\s*)?HKD\$?(...)\<close> at the head of \<open>s\<close>.\<close>

definition sell_hkd_amount_at :: "string \<Rightarrow> string option" where
  "sell_hkd_amount_at s =
     (if ci_prefix ''sell'' s then
        (let r = dropWhile is_space (drop 4 s)
         in if ci_prefix ''price'' r then
              hkd_amount_at
                (dropWhile is_space
                   (if take 1 (drop 5 r) = '':'' then drop 6 r else drop 5 r))
            else hkd_amount_at r)
      else None)"

text \<open>
  Python's truth value of an optional string: \<open>None\<close> and the empty string are false.
\<close>

definition truthy :: "string option \<Rightarrow> bool" where
  "truthy x = (case x of None \<Rightarrow> False | Some s \<Rightarrow> s \<noteq> [])"

text \<open>
  Storing a price text and its projection in the record. The projection may raise, and
  then the parser raises.
\<close>

definition set_sell_price :: "string \<Rightarrow> string \<Rightarrow> property \<Rightarrow> error + property" where
  "set_sell_price shown parsed property_obj =
     (case parse_price_to_millions (Some parsed) of
        Inl e \<Rightarrow> Inl e
      | Inr m \<Rightarrow> Inr (property_obj\<lparr>sell_price := Some shown, sell_price_millions := m\<rparr>))"

text \<open>Method 1: the cell after the table cell labelled \<open>Sell Price\<close>.\<close>

definition sell_price_method1 :: "document \<Rightarrow> property \<Rightarrow> error + property" where
  "sell_price_method1 soup property_obj =
     (case sell_price_td soup of
        Some (Some price_text) \<Rightarrow> set_sell_price price_text price_text property_obj
      | Some None \<Rightarrow> Inr property_obj
      | None \<Rightarrow> Inr property_obj)"

text \<open>Method 2: any text node with the label, and the value next to it.\<close>

definition sell_price_method2 :: "document \<Rightarrow> property \<Rightarrow> error + property" where
  "sell_price_method2 soup property_obj =
     (if truthy (sell_price property_obj) then Inr property_obj
      else (case sell_price_elem soup of
              None \<Rightarrow> Inr property_obj
            | Some elem \<Rightarrow>
                (let price_text = extract_value_from_row elem
                 in if price_text \<noteq> [] then set_sell_price price_text price_text property_obj
                    else Inr property_obj)))"

text \<open>Method 3: the three free-text patterns over the page text, the first match wins.\<close>

definition sell_price_method3 :: "document \<Rightarrow> property \<Rightarrow> error + property" where
  "sell_price_method3 soup property_obj =
     (if truthy (sell_price property_obj) then Inr property_obj
      else (case re_search sell_hkd_amount_at (page_text soup) of
              Some g \<Rightarrow> set_sell_price (''HKD$'' @ g) g property_obj
            | None \<Rightarrow>
                (case re_search price_hkd_amount_at (page_text soup) of
                   Some g \<Rightarrow> set_sell_price (''HKD$'' @ g) g property_obj
                 | None \<Rightarrow>
                     (case re_search hkd_amount_at (page_text soup) of
                        Some g \<Rightarrow> set_sell_price (''HKD$'' @ g) g property_obj
                      | None \<Rightarrow> Inr property_obj))))"

text \<open>The three methods in the order of the source.\<close>

definition extract_sell_price :: "document \<Rightarrow> property \<Rightarrow> error + property" where
  "extract_sell_price soup property_obj =
     (case sell_price_method1 soup property_obj of
        Inl e \<Rightarrow> Inl e
      | Inr p1 \<Rightarrow>
          (case sell_price_method2 soup p1 of
             Inl e \<Rightarrow> Inl e
           | Inr p2 \<Rightarrow> sell_price_method3 soup p2))"

section \<open>The valuation of the detail parser\<close>

definition set_valuation :: "string \<Rightarrow> property \<Rightarrow> error + property" where
  "set_valuation val_text property_obj =
     (case parse_price_to_millions (Some val_text) of
        Inl e \<Rightarrow> Inl e
      | Inr m \<Rightarrow> Inr (property_obj\<lparr>valuation := Some val_text, valuation_millions := m\<rparr>))"

text \<open>
  Lines 1171 to 1185: the cell after the table cell labelled \<open>Valuation\<close>; only when
  there is no such cell, a text node with the label and the value next to it.
\<close>

definition extract_valuation :: "document \<Rightarrow> property \<Rightarrow> error + property" where
  "extract_valuation soup property_obj =
     (case valuation_td soup of
        Some (Some val_text) \<Rightarrow> set_valuation val_text property_obj
      | Some None \<Rightarrow> Inr property_obj
      | None \<Rightarrow>
          (case valuation_elem soup of
             None \<Rightarrow> Inr property_obj
           | Some elem \<Rightarrow>
               (let val_text = extract_value_from_row elem
                in if val_text \<noteq> [] then set_valuation val_text property_obj
                   else Inr property_obj)))"

section \<open>The environment of a run\<close>

text \<open>
  What the crawl runs against: \<open>fetch_page\<close> is the fetch path selected for the run
  (\<open>fetch_page\<close> or \<open>fetch_page_selenium\<close>), which returns the markup or, on any failure,
  \<open>None\<close>; \<open>BeautifulSoup\<close> parses markup, and its parsing and its queries are taken to
  return; \<open>urljoin\<close> is \<open>urllib.parse.urljoin\<close>, which raises \<open>ValueError\<close> on some
  references (\<open>http://[x/property-1\<close> is one);
  \<open>int_max_str_digits\<close> is \<open>sys.get_int_max_str_digits()\<close>, the most digits that \<open>int\<close>
  converts, with 0 for no limit; \<open>max_concurrent\<close> is the scraper's attribute; \<open>now\<close> is
  the timestamp of \<open>datetime.now().isoformat()\<close>. The answer to a fetch depends on the URL
  only, and the delays between requests are not modelled.
\<close>

record world =
  fetch_page :: "string \<Rightarrow> string option"
  BeautifulSoup :: "string \<Rightarrow> document"
  urljoin :: "string \<Rightarrow> string \<Rightarrow> error + string"
  int_max_str_digits :: nat
  max_concurrent :: int
  now :: string

section \<open>Areas, building age and rooms\<close>

text \<open>
  \<open>int(s)\<close> for a string of ASCII digits, which is what the groups of the patterns below
  hold once the commas are removed: the empty string raises \<open>ValueError\<close>, and so does a
  string of more digits than the limit.
\<close>

definition py_int :: "world \<Rightarrow> string \<Rightarrow> error + int" where
  "py_int w s =
     (if s = [] then Inl ValueError
      else if 0 < int_max_str_digits w \<and> int_max_str_digits w < length s
      then Inl ValueError
      else Inr (int (digits_value s)))"

text \<open>
  The patterns \<open>(\d+)\s*suffix\<close>, \<open>(\d+)\<close> and \<open>@\s*([\d,]+)\<close>, matched at the head of
  \<open>s\<close>; the result is group 1.
\<close>

definition digits_before_at :: "string \<Rightarrow> string \<Rightarrow> string option" where
  "digits_before_at suffix s =
     (if takeWhile is_digit s \<noteq> []
         \<and> take (length suffix) (dropWhile is_space (dropWhile is_digit s)) = suffix
      then Some (takeWhile is_digit s) else None)"

definition digits_at :: "string \<Rightarrow> string option" where
  "digits_at s = (if takeWhile is_digit s \<noteq> [] then Some (takeWhile is_digit s) else None)"

definition is_digit_or_comma :: "char \<Rightarrow> bool" where
  "is_digit_or_comma c = (is_digit c \<or> c = CHR '','')"

definition unit_price_at :: "string \<Rightarrow> string option" where
  "unit_price_at s =
     (if take 1 s = ''@''
         \<and> takeWhile is_digit_or_comma (dropWhile is_space (drop 1 s)) \<noteq> []
      then Some (takeWhile is_digit_or_comma (dropWhile is_space (drop 1 s)))
      else None)"

text \<open>The unit suffix of an area, \<open>ft\<close> followed by the superscript two (U+00B2).\<close>

definition sq_ft :: string where
  "sq_ft = ''ft'' @ [CHR 0xB2]"

text \<open>
  \<open>if m: field = int(m.group(1))\<close>: the new value of the field, which stays as it is when
  the pattern did not match.
\<close>

definition int_of_match :: "world \<Rightarrow> string option \<Rightarrow> int option \<Rightarrow> error + int option" where
  "int_of_match w m field =
     (case m of
        None \<Rightarrow> Inr field
      | Some g \<Rightarrow> (case py_int w g of Inl e \<Rightarrow> Inl e | Inr n \<Rightarrow> Inr (Some n)))"

text \<open>
  The square feet and the unit price of an area text (lines 1193 to 1200 and 1207 to
  1214): \<open>int\<close> of the digits before \<open>ft\<close> squared, then \<open>int\<close> of the digits and commas
  after \<open>@\<close> with the commas removed.
\<close>

definition area_values ::
  "world \<Rightarrow> string \<Rightarrow> int option \<Rightarrow> int option \<Rightarrow> error + (int option \<times> int option)" where
  "area_values w area_text sqft price =
     (case int_of_match w (re_search (digits_before_at sq_ft) area_text) sqft of
        Inl e \<Rightarrow> Inl e
      | Inr a \<Rightarrow>
          (case int_of_match w
                  (map_option (filter (\<lambda>c. c \<noteq> CHR '','')) (re_search unit_price_at area_text))
                  price of
             Inl e \<Rightarrow> Inl e
           | Inr b \<Rightarrow> Inr (a, b)))"

definition extract_gross_area :: "world \<Rightarrow> document \<Rightarrow> property \<Rightarrow> error + property" where
  "extract_gross_area w soup property_obj =
     (case gross_area_td soup of
        None \<Rightarrow> Inr property_obj
      | Some area_text \<Rightarrow>
          (case area_values w area_text (gross_area_sqft property_obj)
                  (gross_area_unit_price property_obj) of
             Inl e \<Rightarrow> Inl e
           | Inr (a, b) \<Rightarrow>
               Inr (property_obj\<lparr>gross_area_sqft := a, gross_area_unit_price := b\<rparr>)))"

definition extract_saleable_area :: "world \<Rightarrow> document \<Rightarrow> property \<Rightarrow> error + property" where
  "extract_saleable_area w soup property_obj =
     (case saleable_area_td soup of
        None \<Rightarrow> Inr property_obj
      | Some area_text \<Rightarrow>
          (case area_values w area_text (saleable_area_sqft property_obj)
                  (saleable_area_unit_price property_obj) of
             Inl e \<Rightarrow> Inl e
           | Inr (a, b) \<Rightarrow>
               Inr (property_obj\<lparr>saleable_area_sqft := a, saleable_area_unit_price := b\<rparr>)))"

text \<open>Lines 1216 to 1224: \<open>int\<close> of the digits before \<open>Year\<close>.\<close>

definition extract_building_age :: "world \<Rightarrow> document \<Rightarrow> property \<Rightarrow> error + property" where
  "extract_building_age w soup property_obj =
     (case building_age_td soup of
        None \<Rightarrow> Inr property_obj
      | Some age_text \<Rightarrow>
          (case int_of_match w (re_search (digits_before_at ''Year'') age_text)
                  (building_age_years property_obj) of
             Inl e \<Rightarrow> Inl e
           | Inr a \<Rightarrow> Inr (property_obj\<lparr>building_age_years := a\<rparr>)))"

text \<open>Lines 1233 to 1246: \<open>int\<close> of the digits before \<open>Bedroom\<close>, then before \<open>Bathroom\<close>.\<close>

definition extract_rooms :: "world \<Rightarrow> document \<Rightarrow> property \<Rightarrow> error + property" where
  "extract_rooms w soup property_obj =
     (case rooms_td soup of
        None \<Rightarrow> Inr property_obj
      | Some rooms_text \<Rightarrow>
          (case int_of_match w (re_search (digits_before_at ''Bedroom'') rooms_text)
                  (bedrooms property_obj) of
             Inl e \<Rightarrow> Inl e
           | Inr a \<Rightarrow>
               (case int_of_match w (re_search (digits_before_at ''Bathroom'') rooms_text)
                       (bathrooms property_obj) of
                  Inl e \<Rightarrow> Inl e
                | Inr b \<Rightarrow> Inr (property_obj\<lparr>bedrooms := a, bathrooms := b\<rparr>))))"

text \<open>
  The sections of a detail page that convert numbers, in the order of the source. Each
  runs only when the one before it did not raise.
\<close>

definition extract_numbers :: "world \<Rightarrow> document \<Rightarrow> property \<Rightarrow> error + property" where
  "extract_numbers w soup property_obj =
     (case extract_gross_area w soup property_obj of
        Inl e \<Rightarrow> Inl e
      | Inr p1 \<Rightarrow>
          (case extract_saleable_area w soup p1 of
             Inl e \<Rightarrow> Inl e
           | Inr p2 \<Rightarrow>
               (case extract_building_age w soup p2 of
                  Inl e \<Rightarrow> Inl e
                | Inr p3 \<Rightarrow> extract_rooms w soup p3)))"

text \<open>
  \<open>[urljoin(url, link['href']) for link in links]\<close>: the resolved links, or the exception
  of the first reference that does not resolve.
\<close>

fun resolve_links :: "world \<Rightarrow> string \<Rightarrow> string list \<Rightarrow> error + string list" where
  "resolve_links w u [] = Inr []"
| "resolve_links w u (href # hrefs) =
     (case urljoin w u href of
        Inl e \<Rightarrow> Inl e
      | Inr full_url \<Rightarrow>
          (case resolve_links w u hrefs of
             Inl e \<Rightarrow> Inl e
           | Inr full_urls \<Rightarrow> Inr (full_url # full_urls)))"

section \<open>The two page parsers\<close>

text \<open>
  \<open>extract_property_id\<close>: group 1 of \<open>re.search(r'property-(\d+)', url)\<close>, or the empty
  string.
\<close>

fun extract_property_id :: "string \<Rightarrow> string" where
  "extract_property_id [] = []"
| "extract_property_id (c # cs) =
     (if take 9 (c # cs) = ''property-'' \<and> takeWhile is_digit (drop 8 cs) \<noteq> []
      then takeWhile is_digit (drop 8 cs)
      else extract_property_id cs)"

text \<open>
  \<open>parse_property_page\<close>: the record is created from the URL; the sell-price chain
  (lines 1136 to 1169) and the valuation (lines 1171 to 1185) fill the two prices and
  their projections; the areas, the building age and the rooms are converted; and the
  transaction links are resolved against the page's URL. The sections for the location,
  the estate, the address, the floor and the school nets store texts in attributes of
  their own, without a conversion; they are outside this model, where those attributes
  keep their defaults.
\<close>

definition parse_property_page ::
  "world \<Rightarrow> string \<Rightarrow> string \<Rightarrow> error + (property \<times> string list)" where
  "parse_property_page w html u =
     (let soup = BeautifulSoup w html;
          property_obj = Property u (extract_property_id u) (now w)
      in case extract_sell_price soup property_obj of
           Inl e \<Rightarrow> Inl e
         | Inr property_obj \<Rightarrow>
             (case extract_valuation soup property_obj of
                Inl e \<Rightarrow> Inl e
              | Inr property_obj \<Rightarrow>
                  (case extract_numbers w soup property_obj of
                     Inl e \<Rightarrow> Inl e
                   | Inr property_obj \<Rightarrow>
                       (case resolve_links w u (transaction_hrefs soup) of
                          Inl e \<Rightarrow> Inl e
                        | Inr transaction_urls \<Rightarrow> Inr (property_obj, transaction_urls)))))"

definition set_sold_price :: "string \<Rightarrow> transaction \<Rightarrow> error + transaction" where
  "set_sold_price price_text t =
     (case parse_price_to_millions (Some price_text) of
        Inl e \<Rightarrow> Inl e
      | Inr m \<Rightarrow> Inr (t\<lparr>sold_price := Some price_text, sold_price_millions := m\<rparr>))"

text \<open>Lines 1336 to 1350: the sold price and its projection.\<close>

definition extract_sold_price :: "document \<Rightarrow> transaction \<Rightarrow> error + transaction" where
  "extract_sold_price soup t =
     (case sold_price_td soup of
        Some (Some price_text) \<Rightarrow> set_sold_price price_text t
      | Some None \<Rightarrow> Inr t
      | None \<Rightarrow>
          (case sold_price_elem soup of
             None \<Rightarrow> Inr t
           | Some elem \<Rightarrow>
               (let price_text = extract_value_from_row elem
                in if price_text \<noteq> [] then set_sold_price price_text t else Inr t)))"

text \<open>
  Lines 1359 to 1376 and 1391 to 1399: the two areas, \<open>int\<close> of the digits before \<open>ft\<close>
  squared, and the bedrooms, \<open>int\<close> of the first digits of the cell.
\<close>

definition extract_txn_numbers :: "world \<Rightarrow> document \<Rightarrow> transaction \<Rightarrow> error + transaction" where
  "extract_txn_numbers w soup t =
     (case int_of_match w
             (case txn_gross_area_td soup of
                None \<Rightarrow> None
              | Some area_text \<Rightarrow> re_search (digits_before_at sq_ft) area_text)
             (txn_gross_area_sqft t) of
        Inl e \<Rightarrow> Inl e
      | Inr a \<Rightarrow>
          (case int_of_match w
                  (case txn_saleable_area_td soup of
                     None \<Rightarrow> None
                   | Some area_text \<Rightarrow> re_search (digits_before_at sq_ft) area_text)
                  (txn_saleable_area_sqft t) of
             Inl e \<Rightarrow> Inl e
           | Inr b \<Rightarrow>
               (case int_of_match w
                       (case bedroom_td soup of
                          None \<Rightarrow> None
                        | Some bedroom_text \<Rightarrow> re_search digits_at bedroom_text)
                       (txn_bedrooms t) of
                  Inl e \<Rightarrow> Inl e
                | Inr c \<Rightarrow>
                    Inr (t\<lparr>txn_gross_area_sqft := a, txn_saleable_area_sqft := b,
                           txn_bedrooms := c\<rparr>))))"

text \<open>
  \<open>parse_transaction_page\<close>: the record is created with its URL, the sold-price section
  fills the price and its projection, and the areas and the bedrooms are converted. The
  sections for the header, the location, the date, the unit prices and the format store
  texts in attributes of their own, without a conversion; they are outside this model,
  as above.
\<close>

definition parse_transaction_page :: "world \<Rightarrow> string \<Rightarrow> string \<Rightarrow> error + transaction" where
  "parse_transaction_page w html u =
     (let soup = BeautifulSoup w html
      in case extract_sold_price soup (Transaction u) of
           Inl e \<Rightarrow> Inl e
         | Inr t \<Rightarrow> extract_txn_numbers w soup t)"

section \<open>The crawl\<close>

text \<open>\<open>if not html\<close>: a fetch counts as failed when it returns \<open>None\<close> or empty markup.\<close>

definition fetch_failed :: "world \<Rightarrow> string \<Rightarrow> bool" where
  "fetch_failed w u = (case fetch_page w u of None \<Rightarrow> True | Some html \<Rightarrow> html = [])"

text \<open>\<open>str(n)\<close> for a natural number.\<close>

function str_nat :: "nat \<Rightarrow> string" where
  "str_nat n =
     (if n < 10 then [''0123456789'' ! n]
      else str_nat (n div 10) @ [''0123456789'' ! (n mod 10)])"
  by pat_completeness auto
termination
  by (relation "measure (\<lambda>n. n)") auto

declare str_nat.simps [simp del]

definition listing_url :: "string \<Rightarrow> nat \<Rightarrow> string" where
  "listing_url base_url page =
     (if 1 < page then base_url @ ''?page='' @ str_nat page else base_url)"

text \<open>The inner loop of listing discovery: a link not yet in the list is appended.\<close>

definition add_link :: "string list \<Rightarrow> string \<Rightarrow> string list" where
  "add_link property_urls full_url =
     (if full_url \<in> set property_urls then property_urls else property_urls @ [full_url])"

text \<open>
  The loop over the links of one listing page: each reference is resolved against the
  base URL and added; a reference that does not resolve raises.
\<close>

fun add_links :: "world \<Rightarrow> string \<Rightarrow> string list \<Rightarrow> string list \<Rightarrow> error + string list" where
  "add_links w base_url property_urls [] = Inr property_urls"
| "add_links w base_url property_urls (href # hrefs) =
     (case urljoin w base_url href of
        Inl e \<Rightarrow> Inl e
      | Inr full_url \<Rightarrow> add_links w base_url (add_link property_urls full_url) hrefs)"

text \<open>
  The references that one listing page contributes: those of its property links, and
  none when its fetch fails.
\<close>

definition page_hrefs :: "world \<Rightarrow> string \<Rightarrow> nat \<Rightarrow> string list" where
  "page_hrefs w base_url page =
     (case fetch_page w (listing_url base_url page) of
        None \<Rightarrow> []
      | Some html \<Rightarrow> if html = [] then [] else property_hrefs (BeautifulSoup w html))"

text \<open>
  The loop of \<open>scrape_property_listings\<close> over the page numbers. The state is the list of
  URLs fetched so far, in order, and \<open>property_urls\<close>; the result is the list of URLs
  fetched, with the returned \<open>property_urls\<close> or the exception that ended the loop.
\<close>

fun listing_loop ::
  "world \<Rightarrow> string \<Rightarrow> nat list \<Rightarrow> string list \<Rightarrow> string list
   \<Rightarrow> string list \<times> (error + string list)" where
  "listing_loop w base_url [] fetched property_urls = (fetched, Inr property_urls)"
| "listing_loop w base_url (page # pages) fetched property_urls =
     (case add_links w base_url property_urls (page_hrefs w base_url page) of
        Inl e \<Rightarrow> (fetched @ [listing_url base_url page], Inl e)
      | Inr property_urls' \<Rightarrow>
          listing_loop w base_url pages (fetched @ [listing_url base_url page])
            property_urls')"

text \<open>
  For the statements about discovery: the resolved links that one listing page
  contributes, or the exception of its first reference that does not resolve.
\<close>

definition page_links :: "world \<Rightarrow> string \<Rightarrow> nat \<Rightarrow> error + string list" where
  "page_links w base_url page = resolve_links w base_url (page_hrefs w base_url page)"


text \<open>\<open>scrape_property_listings\<close>: the loop over \<open>range(1, max_pages + 1)\<close>.\<close>

definition scrape_property_listings ::
  "world \<Rightarrow> string \<Rightarrow> int \<Rightarrow> string list \<times> (error + string list)" where
  "scrape_property_listings w base_url max_pages =
     listing_loop w base_url [1 ..< nat (max_pages + 1)] [] []"

text \<open>
  The loop of \<open>scrape_property\<close> over the transaction URLs: a page that cannot be fetched
  is passed over, a fetched one is parsed and appended.
\<close>

fun scrape_transactions :: "world \<Rightarrow> string list \<Rightarrow> property \<Rightarrow> error + property" where
  "scrape_transactions w [] property_obj = Inr property_obj"
| "scrape_transactions w (trans_url # rest) property_obj =
     (case fetch_page w trans_url of
        None \<Rightarrow> scrape_transactions w rest property_obj
      | Some trans_html \<Rightarrow>
          if trans_html = [] then scrape_transactions w rest property_obj
          else (case parse_transaction_page w trans_html trans_url of
                  Inl e \<Rightarrow> Inl e
                | Inr t \<Rightarrow>
                    scrape_transactions w rest
                      (property_obj\<lparr>transactions := transactions property_obj @ [t]\<rparr>)))"

text \<open>
  \<open>scrape_property\<close>: \<open>None\<close> when the page cannot be fetched; otherwise the parsed
  record with the transactions of the first five links.
\<close>

definition scrape_property :: "world \<Rightarrow> string \<Rightarrow> error + property option" where
  "scrape_property w u =
     (case fetch_page w u of
        None \<Rightarrow> Inr None
      | Some html \<Rightarrow>
          if html = [] then Inr None
          else (case parse_property_page w html u of
                  Inl e \<Rightarrow> Inl e
                | Inr (property_obj, transaction_urls) \<Rightarrow>
                    (case scrape_transactions w (take 5 transaction_urls) property_obj of
                       Inl e \<Rightarrow> Inl e
                     | Inr p \<Rightarrow> Inr (Some p))))"

text \<open>
  \<open>asyncio.gather\<close> over the tasks: the results in the order of the tasks, or the
  exception of a task that raised.
\<close>

fun gather :: "(error + 'a) list \<Rightarrow> error + 'a list" where
  "gather [] = Inr []"
| "gather (r # rs) =
     (case r of
        Inl e \<Rightarrow> Inl e
      | Inr x \<Rightarrow> (case gather rs of Inl e \<Rightarrow> Inl e | Inr xs \<Rightarrow> Inr (x # xs)))"

text \<open>\<open>[p for p in results if p is not None]\<close>.\<close>

fun not_none :: "'a option list \<Rightarrow> 'a list" where
  "not_none [] = []"
| "not_none (None # rs) = not_none rs"
| "not_none (Some p # rs) = p # not_none rs"

text \<open>
  Lines 1478 to 1491 of \<open>scrape_all\<close>: the semaphore, one task per URL, gathered and
  filtered. \<open>asyncio.Semaphore\<close> raises \<open>ValueError\<close> on a negative value. With the value
  0 no task ever enters its section, so with a URL to scrape the call does not return,
  which is the result \<open>None\<close>.
\<close>

definition scrape_tasks :: "world \<Rightarrow> string list \<Rightarrow> (error + property list) option" where
  "scrape_tasks w property_urls =
     (if max_concurrent w < 0 then Some (Inl ValueError)
      else if max_concurrent w = 0 \<and> property_urls \<noteq> [] then None
      else (case gather (map (scrape_property w) property_urls) of
              Inl e \<Rightarrow> Some (Inl e)
            | Inr results \<Rightarrow> Some (Inr (not_none results))))"

text \<open>\<open>xs[:n]\<close> for an integer \<open>n\<close>: a negative \<open>n\<close> counts from the end.\<close>

definition py_take :: "int \<Rightarrow> 'a list \<Rightarrow> 'a list" where
  "py_take n xs = (if 0 \<le> n then take (nat n) xs else take (length xs - nat (- n)) xs)"

definition scrape_all ::
  "world \<Rightarrow> string \<Rightarrow> int \<Rightarrow> int \<Rightarrow> (error + property list) option" where
  "scrape_all w base_url max_pages max_properties =
     (case snd (scrape_property_listings w base_url max_pages) of
        Inl e \<Rightarrow> Some (Inl e)
      | Inr property_urls \<Rightarrow> scrape_tasks w (py_take max_properties property_urls))"

text \<open>
  For the statements about the tasks: a task returns when it does not raise, a child page
  is passed when its fetch fails or its parser does not raise, and the records of a task
  are the one it returns, if any.
\<close>

definition task_returns :: "world \<Rightarrow> string \<Rightarrow> bool" where
  "task_returns w u = (case scrape_property w u of Inl e \<Rightarrow> False | Inr r \<Rightarrow> True)"

definition child_returns :: "world \<Rightarrow> string \<Rightarrow> bool" where
  "child_returns w trans_url =
     (case fetch_page w trans_url of
        None \<Rightarrow> True
      | Some trans_html \<Rightarrow>
          if trans_html = [] then True
          else (case parse_transaction_page w trans_html trans_url of
                  Inl e \<Rightarrow> False
                | Inr t \<Rightarrow> True))"

definition task_records :: "world \<Rightarrow> string \<Rightarrow> property list" where
  "task_records w u =
     (case scrape_property w u of
        Inl e \<Rightarrow> []
      | Inr None \<Rightarrow> []
      | Inr (Some p) \<Rightarrow> [p])"

section \<open>The result sink\<close>

text \<open>
  The values of the dictionaries that \<open>asdict\<close> builds, and the two kinds of file the sink
  writes: a JSON document, and a table with one dictionary per row. A dictionary is a
  list of key-value pairs in insertion order.
\<close>

datatype pyval =
    VNone
  | VStr string
  | VInt int
  | VFloat rat
  | VList "pyval list"
  | VDict "(string \<times> pyval) list"

datatype file_content =
    JsonFile pyval
  | CsvFile "(string \<times> pyval) list list"

definition opt_str :: "string option \<Rightarrow> pyval" where
  "opt_str x = (case x of None \<Rightarrow> VNone | Some s \<Rightarrow> VStr s)"

definition opt_int :: "int option \<Rightarrow> pyval" where
  "opt_int x = (case x of None \<Rightarrow> VNone | Some i \<Rightarrow> VInt i)"

definition opt_float :: "rat option \<Rightarrow> pyval" where
  "opt_float x = (case x of None \<Rightarrow> VNone | Some r \<Rightarrow> VFloat r)"

text \<open>\<open>asdict\<close> on a \<open>Transaction\<close> and on a \<open>Property\<close>: the fields in declaration order.\<close>

definition asdict_transaction :: "transaction \<Rightarrow> (string \<times> pyval) list" where
  "asdict_transaction t =
     [(''property_full_name'', VStr (property_full_name t)),
      (''estate_name'', VStr (txn_estate_name t)),
      (''flat_info'', VStr (flat_info t)),
      (''location'', VStr (location t)),
      (''sold_price'', opt_str (sold_price t)),
      (''sold_price_millions'', opt_float (sold_price_millions t)),
      (''registry_date'', opt_str (registry_date t)),
      (''gross_area_sqft'', opt_int (txn_gross_area_sqft t)),
      (''saleable_area_sqft'', opt_int (txn_saleable_area_sqft t)),
      (''building_unit_price'', opt_str (building_unit_price t)),
      (''unit_price'', opt_str (unit_price t)),
      (''bedrooms'', opt_int (txn_bedrooms t)),
      (''transaction_format'', opt_str (transaction_format t)),
      (''url'', opt_str (txn_url t))]"

definition asdict :: "property \<Rightarrow> (string \<times> pyval) list" where
  "asdict p =
     [(''url'', VStr (url p)),
      (''property_id'', VStr (property_id p)),
      (''location_breadcrumb'', opt_str (location_breadcrumb p)),
      (''estate_name'', opt_str (estate_name p)),
      (''full_address'', opt_str (full_address p)),
      (''block_unit'', opt_str (block_unit p)),
      (''floor_info'', opt_str (floor_info p)),
      (''sell_price'', opt_str (sell_price p)),
      (''sell_price_millions'', opt_float (sell_price_millions p)),
      (''valuation'', opt_str (valuation p)),
      (''valuation_millions'', opt_float (valuation_millions p)),
      (''gross_area_sqft'', opt_int (gross_area_sqft p)),
      (''gross_area_unit_price'', opt_int (gross_area_unit_price p)),
      (''saleable_area_sqft'', opt_int (saleable_area_sqft p)),
      (''saleable_area_unit_price'', opt_int (saleable_area_unit_price p)),
      (''building_age_years'', opt_int (building_age_years p)),
      (''bedrooms'', opt_int (bedrooms p)),
      (''bathrooms'', opt_int (bathrooms p)),
      (''pri_school_net'', opt_str (pri_school_net p)),
      (''sec_school_net'', opt_str (sec_school_net p)),
      (''transactions'', VList (map (\<lambda>t. VDict (asdict_transaction t)) (transactions p))),
      (''scraped_at'', VStr (scraped_at p))]"

text \<open>\<open>d.pop(k, None)\<close> and \<open>d[k] = v\<close> on a dictionary.\<close>

definition dict_pop :: "string \<Rightarrow> (string \<times> pyval) list \<Rightarrow> (string \<times> pyval) list" where
  "dict_pop k d = filter (\<lambda>kv. fst kv \<noteq> k) d"

definition dict_set :: "string \<Rightarrow> pyval \<Rightarrow> (string \<times> pyval) list \<Rightarrow> (string \<times> pyval) list" where
  "dict_set k v d =
     (if k \<in> set (map fst d) then map (\<lambda>kv. if fst kv = k then (k, v) else kv) d
      else d @ [(k, v)])"

text \<open>
  \<open>save_to_json\<close>: the one write it makes, as the file name and the document.
  \<open>stamp\<close> is \<open>datetime.now().isoformat()\<close> at the time of the call.
\<close>

definition save_to_json ::
  "property list \<Rightarrow> string \<Rightarrow> string \<Rightarrow> (string \<times> file_content) list" where
  "save_to_json properties filename stamp =
     [(filename,
       JsonFile (VDict [(''scraped_at'', VStr stamp),
                        (''total_properties'', VInt (int (length properties))),
                        (''properties'', VList (map (\<lambda>p. VDict (asdict p)) properties))]))]"

text \<open>The rows that \<open>save_to_csv\<close> prepares for the two tables.\<close>

definition properties_data :: "property list \<Rightarrow> (string \<times> pyval) list list" where
  "properties_data properties = map (\<lambda>prop. dict_pop ''transactions'' (asdict prop)) properties"

definition transaction_rows :: "property \<Rightarrow> (string \<times> pyval) list list" where
  "transaction_rows prop =
     map (\<lambda>trans. dict_set ''property_url'' (VStr (url prop))
                    (dict_set ''property_id'' (VStr (property_id prop))
                       (asdict_transaction trans)))
         (transactions prop)"

definition transactions_data :: "property list \<Rightarrow> (string \<times> pyval) list list" where
  "transactions_data properties = concat (map transaction_rows properties)"

text \<open>
  \<open>save_to_csv\<close>: the writes it makes, in order. Each table is written only when it has
  a row.
\<close>

definition save_to_csv ::
  "property list \<Rightarrow> string \<Rightarrow> string \<Rightarrow> (string \<times> file_content) list" where
  "save_to_csv properties properties_file transactions_file =
     (if properties_data properties \<noteq> []
      then [(properties_file, CsvFile (properties_data properties))] else [])
     @ (if transactions_data properties \<noteq> []
        then [(transactions_file, CsvFile (transactions_data properties))] else [])"

text \<open>
  The foreign-key relation between a row of the child table and a row of the parent
  table: the child's \<open>property_id\<close> and \<open>property_url\<close> columns against the parent's
  \<open>property_id\<close> and \<open>url\<close> columns.
\<close>

definition fk_matches :: "(string \<times> pyval) list \<Rightarrow> (string \<times> pyval) list \<Rightarrow> bool" where
  "fk_matches child parent =
     (map_of child ''property_id'' = map_of parent ''property_id''
      \<and> map_of child ''property_url'' = map_of parent ''url'')"

section \<open>The admission gate\<close>

text \<open>
  \<open>scrape_all\<close> creates \<open>asyncio.Semaphore(max_concurrent)\<close> and one task per URL; a task
  runs \<open>scrape_property\<close> inside \<open>async with semaphore\<close>. The run is modelled by the
  semaphore's counter and the state of each task. A task enters its fetch-and-extract
  section by acquiring the semaphore, which needs a positive counter and lowers it by
  one; it leaves the section, with a result or an exception, by releasing, which raises
  the counter by one. Any interleaving of these steps is a run.
\<close>

datatype task_state = Pending | Fetching | Finished

record gate =
  permits :: nat
  tasks :: "task_state list"

definition start :: "nat \<Rightarrow> nat \<Rightarrow> gate" where
  "start K n = \<lparr>permits = K, tasks = replicate n Pending\<rparr>"

inductive step :: "gate \<Rightarrow> gate \<Rightarrow> bool" where
  acquire:
    "i < length (tasks g) \<Longrightarrow> tasks g ! i = Pending \<Longrightarrow> 0 < permits g \<Longrightarrow>
     step g (g\<lparr>permits := permits g - 1, tasks := (tasks g)[i := Fetching]\<rparr>)"
| release:
    "i < length (tasks g) \<Longrightarrow> tasks g ! i = Fetching \<Longrightarrow>
     step g (g\<lparr>permits := permits g + 1, tasks := (tasks g)[i := Finished]\<rparr>)"

inductive reachable :: "nat \<Rightarrow> nat \<Rightarrow> gate \<Rightarrow> bool" where
  at_start: "reachable K n (start K n)"
| after_step: "reachable K n g \<Longrightarrow> step g g' \<Longrightarrow> reachable K n g'"

definition fetching :: "gate \<Rightarrow> nat" where
  "fetching g = length (filter (\<lambda>t. t = Fetching) (tasks g))"

section \<open>An example site\<close>

text \<open>
  A small site on which the definitions can be run. The first listing page has no
  property link; the second links to two properties, one of them twice. The page of
  property 1 cannot be fetched. The page of property 2 shows three different prices, in
  the table, next to a text label and in the running text, and links to seven
  transactions, of which only the second, the fifth and the sixth can be fetched.
\<close>

definition example_label :: element where
  "example_label =
     \<lparr>parent_tr = Some [''Sell Price'', ''HKD$9M''], parent_td = None,
      parent_text = ''Sell Price'', label_text = ''Sell Price''\<rparr>"

definition example_listing :: "string list \<Rightarrow> document" where
  "example_listing hrefs =
     \<lparr>sell_price_td = None, sell_price_elem = None, page_text = [],
      valuation_td = None, valuation_elem = None,
      gross_area_td = None, saleable_area_td = None, building_age_td = None,
      rooms_td = None,
      transaction_hrefs = [], sold_price_td = None, sold_price_elem = None,
      txn_gross_area_td = None, txn_saleable_area_td = None, bedroom_td = None,
      property_hrefs = hrefs\<rparr>"

definition example_detail :: document where
  "example_detail =
     \<lparr>sell_price_td = Some (Some ''HKD$1.5M''), sell_price_elem = Some example_label,
      page_text = ''Sell Price: HKD$7.2 Million'',
      valuation_td = Some (Some ''3000000''), valuation_elem = None,
      gross_area_td = Some (''500 '' @ sq_ft @ '' @ 12,000''), saleable_area_td = None,
      building_age_td = Some ''12 Year(s)'', rooms_td = Some ''2 Bedrooms'',
      transaction_hrefs =
        [''http://h/transaction/deal-1'', ''http://h/transaction/deal-2'',
         ''http://h/transaction/deal-3'', ''http://h/transaction/deal-4'',
         ''http://h/transaction/deal-5'', ''http://h/transaction/deal-6'',
         ''http://h/transaction/deal-7''],
      sold_price_td = None, sold_price_elem = None,
      txn_gross_area_td = None, txn_saleable_area_td = None, bedroom_td = None,
      property_hrefs = []\<rparr>"

definition example_deal :: document where
  "example_deal =
     \<lparr>sell_price_td = None, sell_price_elem = None, page_text = [],
      valuation_td = None, valuation_elem = None,
      gross_area_td = None, saleable_area_td = None, building_age_td = None,
      rooms_td = None,
      transaction_hrefs = [], sold_price_td = Some (Some ''HKD$2M''),
      sold_price_elem = None,
      txn_gross_area_td = Some (''450 '' @ sq_ft), txn_saleable_area_td = None,
      bedroom_td = Some ''2'',
      property_hrefs = []\<rparr>"

definition example_world :: world where
  "example_world =
     \<lparr>fetch_page = (\<lambda>u.
        if u = ''http://h/buy'' then Some ''L1''
        else if u = ''http://h/buy?page=2'' then Some ''L2''
        else if u = ''http://h/property-2'' then Some ''P2''
        else if u = ''http://h/transaction/deal-2'' then Some ''T2''
        else if u = ''http://h/transaction/deal-5'' then Some ''T2''
        else if u = ''http://h/transaction/deal-6'' then Some ''T2''
        else None),
      BeautifulSoup = (\<lambda>html.
        if html = ''L2'' then
          example_listing [''http://h/property-1'', ''http://h/property-2'',
                           ''http://h/property-1'']
        else if html = ''P2'' then example_detail
        else if html = ''T2'' then example_deal
        else example_listing []),
      urljoin = (\<lambda>base href. Inr href),
      int_max_str_digits = 4300,
      max_concurrent = 3,
      now = ''2024-01-01T00:00:00''\<rparr>"

text \<open>Two records for the sink: one with two transactions, one with none.\<close>

definition example_properties :: "property list" where
  "example_properties =
     [(Property ''http://h/property-2'' ''2'' ''2024-01-01T00:00:00'')
        \<lparr>transactions := [Transaction ''http://h/transaction/deal-2'',
                          Transaction ''http://h/transaction/deal-3'']\<rparr>,
      Property ''http://h/property-3'' ''3'' ''2024-01-01T00:00:00'']"

section \<open>Evaluation lemmas\<close>

lemmas char_class_defs = is_digit_def is_space_def is_number_char_def

lemmas price_defs =
  parse_price_to_millions_def price_search_def py_float_def strip_def
  digits_value_def digit_value_def char_class_defs

lemmas example_defs =
  example_world_def example_detail_def example_deal_def example_listing_def
  example_label_def

lemmas chain_defs =
  extract_sell_price_def sell_price_method1_def sell_price_method2_def
  sell_price_method3_def set_sell_price_def truthy_def
  extract_valuation_def set_valuation_def

lemmas number_defs =
  extract_numbers_def extract_gross_area_def extract_saleable_area_def
  extract_building_age_def extract_rooms_def extract_txn_numbers_def area_values_def
  int_of_match_def py_int_def digits_before_at_def digits_at_def unit_price_at_def
  is_digit_or_comma_def sq_ft_def digits_value_def digit_value_def char_class_defs

lemmas crawl_defs =
  scrape_property_def parse_property_page_def parse_transaction_page_def
  extract_sold_price_def set_sold_price_def Property_def Transaction_def fetch_failed_def

lemmas sink_defs =
  properties_data_def transactions_data_def transaction_rows_def dict_pop_def dict_set_def
  asdict_def asdict_transaction_def fk_matches_def Property_def Transaction_def
  opt_str_def opt_int_def opt_float_def

section \<open>The price pattern on decimal literals\<close>

lemma number_char_not_H: "is_number_char c \<Longrightarrow> c \<noteq> CHR ''H''"
  by (auto simp: char_class_defs)

lemma number_char_not_space: "is_number_char c \<Longrightarrow> \<not> is_space c"
  by (auto simp: char_class_defs)

lemma re_sub_hkd_no_H: "CHR ''H'' \<notin> set s \<Longrightarrow> re_sub_hkd s = s"
  by (induction s) auto

lemma dropWhile_none: "list_all (\<lambda>c. \<not> P c) s \<Longrightarrow> dropWhile P s = s"
  by (cases s) auto

lemma strip_no_space: "list_all (\<lambda>c. \<not> is_space c) s \<Longrightarrow> strip s = s"
proof -
  assume a: "list_all (\<lambda>c. \<not> is_space c) s"
  then have "list_all (\<lambda>c. \<not> is_space c) (rev s)" by (simp add: list_all_iff)
  then show ?thesis using a by (simp add: strip_def dropWhile_none)
qed

lemma py_float_nonempty: "py_float d = Inr v \<Longrightarrow> d \<noteq> []"
  by (auto simp: py_float_def)

lemma price_search_literal:
  assumes "list_all is_number_char d" and "d \<noteq> []"
  shows "price_search d = Some (d, None)"
    and "price_search (d @ ''M'') = Some (d, Some ''M'')"
proof -
  obtain c cs where d: "d = c # cs" using assms(2) by (cases d) auto
  have all: "\<forall>x\<in>set d. is_number_char x" using assms(1) by (simp add: list_all_iff)
  have c: "is_number_char c" using all d by simp
  have M: "\<not> is_number_char CHR ''M''" "\<not> is_space CHR ''M''"
    by (simp_all add: char_class_defs)
  have tw: "takeWhile is_number_char d = d" using all by simp
  have dw: "dropWhile is_number_char d = []" using all by simp
  have skip: "dropWhile (\<lambda>c. \<not> is_number_char c) d = d" using c d by simp
  show "price_search d = Some (d, None)"
    using assms(2) by (simp add: price_search_def Let_def skip tw dw)
  have tw2: "takeWhile is_number_char (d @ ''M'') = d" using all M by simp
  have dw2: "dropWhile is_number_char (d @ ''M'') = ''M''" using all M by simp
  have skip2: "dropWhile (\<lambda>c. \<not> is_number_char c) (d @ ''M'') = d @ ''M''"
    using c d by simp
  show "price_search (d @ ''M'') = Some (d, Some ''M'')"
    using M by (simp add: price_search_def Let_def skip2 tw2 dw2)
qed

section \<open>Listing discovery\<close>

lemma add_link_distinct: "distinct acc \<Longrightarrow> distinct (foldl add_link acc xs)"
  by (induction xs arbitrary: acc) (simp_all add: add_link_def)


text \<open>The loop over the links of a page adds the resolved links, when all resolve.\<close>

lemma add_links_resolved:
  "add_links w b acc hrefs
   = (case resolve_links w b hrefs of
        Inl e \<Rightarrow> Inl e
      | Inr links \<Rightarrow> Inr (foldl add_link acc links))"
  by (induction hrefs arbitrary: acc) (auto split: sum.splits)

lemma listing_loop_step:
  "listing_loop w b (page # pages) fetched urls
   = (case page_links w b page of
        Inl e \<Rightarrow> (fetched @ [listing_url b page], Inl e)
      | Inr links \<Rightarrow>
          listing_loop w b pages (fetched @ [listing_url b page]) (foldl add_link urls links))"
  by (simp add: add_links_resolved page_links_def split: sum.splits)

declare listing_loop.simps(2) [simp del]

text \<open>A reference that does not resolve ends the loop at its page.\<close>

lemma listing_aborts:
  "page_links w b page = Inl e \<Longrightarrow>
   listing_loop w b (page # pages) fetched urls = (fetched @ [listing_url b page], Inl e)"
  by (simp add: listing_loop_step)


text \<open>When the loop returns, every page was fetched and every link was merged.\<close>

lemma listing_loop_returns:
  "snd (listing_loop w b pages fetched urls) = Inr r \<Longrightarrow>
   fst (listing_loop w b pages fetched urls) = fetched @ map (listing_url b) pages
   \<and> (\<exists>linkss. map (page_links w b) pages = map Inr linkss
         \<and> r = foldl add_link urls (concat linkss))"
proof (induction pages arbitrary: fetched urls)
  case Nil
  then show ?case by simp
next
  case (Cons page pages)
  from Cons.prems obtain links where
    l: "page_links w b page = Inr links"
    and r: "snd (listing_loop w b pages (fetched @ [listing_url b page])
                  (foldl add_link urls links)) = Inr r"
    by (auto simp: listing_loop_step split: sum.splits)
  from Cons.IH [OF r] obtain linkss where
    f: "fst (listing_loop w b pages (fetched @ [listing_url b page])
              (foldl add_link urls links))
        = (fetched @ [listing_url b page]) @ map (listing_url b) pages"
    and m: "map (page_links w b) pages = map Inr linkss"
           "r = foldl add_link (foldl add_link urls links) (concat linkss)"
    by blast
  have "map (page_links w b) (page # pages) = map Inr (links # linkss)"
    using l m(1) by simp
  moreover have "r = foldl add_link urls (concat (links # linkss))"
    using m(2) by simp
  moreover have "fst (listing_loop w b (page # pages) fetched urls)
                 = fetched @ map (listing_url b) (page # pages)"
    using f l by (simp add: listing_loop_step)
  ultimately show ?case by blast
qed


section \<open>The detail task\<close>

text \<open>What the two price sections leave alone.\<close>

lemma set_sell_price_keeps:
  "set_sell_price a b p = Inr p' \<Longrightarrow>
   transactions p' = transactions p \<and> url p' = url p
   \<and> valuation p' = valuation p \<and> valuation_millions p' = valuation_millions p"
  by (auto simp: set_sell_price_def split: sum.splits)

lemma extract_sell_price_keeps:
  "extract_sell_price soup p = Inr p' \<Longrightarrow>
   transactions p' = transactions p \<and> url p' = url p
   \<and> valuation p' = valuation p \<and> valuation_millions p' = valuation_millions p"
  by (auto simp: extract_sell_price_def sell_price_method1_def sell_price_method2_def
      sell_price_method3_def Let_def
      split: sum.splits option.splits if_splits dest!: set_sell_price_keeps)

lemma set_valuation_keeps:
  "set_valuation a p = Inr p' \<Longrightarrow>
   transactions p' = transactions p \<and> url p' = url p
   \<and> sell_price p' = sell_price p \<and> sell_price_millions p' = sell_price_millions p"
  by (auto simp: set_valuation_def split: sum.splits)

lemma extract_valuation_keeps:
  "extract_valuation soup p = Inr p' \<Longrightarrow>
   transactions p' = transactions p \<and> url p' = url p
   \<and> sell_price p' = sell_price p \<and> sell_price_millions p' = sell_price_millions p"
  by (auto simp: extract_valuation_def Let_def
      split: option.splits if_splits dest!: set_valuation_keeps)

lemma extract_gross_area_updates:
  assumes "extract_gross_area w soup p = Inr p'"
  shows "\<exists>a b. p' = p\<lparr>gross_area_sqft := a, gross_area_unit_price := b\<rparr>"
proof (cases "gross_area_td soup")
  case None
  then have "p' = p" using assms by (simp add: extract_gross_area_def)
  then show ?thesis by (intro exI [of _ "gross_area_sqft p"] exI [of _ "gross_area_unit_price p"]) simp
next
  case (Some t)
  then show ?thesis using assms by (auto simp: extract_gross_area_def split: sum.splits)
qed

lemma extract_saleable_area_updates:
  assumes "extract_saleable_area w soup p = Inr p'"
  shows "\<exists>a b. p' = p\<lparr>saleable_area_sqft := a, saleable_area_unit_price := b\<rparr>"
proof (cases "saleable_area_td soup")
  case None
  then have "p' = p" using assms by (simp add: extract_saleable_area_def)
  then show ?thesis by (intro exI [of _ "saleable_area_sqft p"] exI [of _ "saleable_area_unit_price p"]) simp
next
  case (Some t)
  then show ?thesis using assms by (auto simp: extract_saleable_area_def split: sum.splits)
qed

lemma extract_building_age_updates:
  assumes "extract_building_age w soup p = Inr p'"
  shows "\<exists>a. p' = p\<lparr>building_age_years := a\<rparr>"
proof (cases "building_age_td soup")
  case None
  then have "p' = p" using assms by (simp add: extract_building_age_def)
  then show ?thesis by (intro exI [of _ "building_age_years p"]) simp
next
  case (Some t)
  then show ?thesis using assms by (auto simp: extract_building_age_def split: sum.splits)
qed

lemma extract_rooms_updates:
  assumes "extract_rooms w soup p = Inr p'"
  shows "\<exists>a b. p' = p\<lparr>bedrooms := a, bathrooms := b\<rparr>"
proof (cases "rooms_td soup")
  case None
  then have "p' = p" using assms by (simp add: extract_rooms_def)
  then show ?thesis by (intro exI [of _ "bedrooms p"] exI [of _ "bathrooms p"]) simp
next
  case (Some t)
  then show ?thesis using assms by (auto simp: extract_rooms_def split: sum.splits)
qed

lemma extract_numbers_keeps:
  assumes "extract_numbers w soup p = Inr p'"
  shows "transactions p' = transactions p \<and> url p' = url p
         \<and> sell_price p' = sell_price p \<and> sell_price_millions p' = sell_price_millions p
         \<and> valuation p' = valuation p \<and> valuation_millions p' = valuation_millions p"
proof -
  from assms obtain p1 p2 p3 where
    a: "extract_gross_area w soup p = Inr p1" "extract_saleable_area w soup p1 = Inr p2"
       "extract_building_age w soup p2 = Inr p3" "extract_rooms w soup p3 = Inr p'"
    by (auto simp: extract_numbers_def split: sum.splits)
  from extract_gross_area_updates [OF a(1)] extract_saleable_area_updates [OF a(2)]
    extract_building_age_updates [OF a(3)] extract_rooms_updates [OF a(4)]
  show ?thesis by auto
qed

lemma parse_property_page_steps:
  assumes "parse_property_page w html u = Inr (p, turls)"
  shows "\<exists>p1 p2. extract_sell_price (BeautifulSoup w html)
                   (Property u (extract_property_id u) (now w)) = Inr p1
              \<and> extract_valuation (BeautifulSoup w html) p1 = Inr p2
              \<and> extract_numbers w (BeautifulSoup w html) p2 = Inr p
              \<and> resolve_links w u (transaction_hrefs (BeautifulSoup w html)) = Inr turls"
  using assms by (auto simp: parse_property_page_def Let_def split: sum.splits)

lemma parse_property_page_transactions:
  assumes "parse_property_page w html u = Inr (p0, turls)"
  shows "transactions p0 = []" and "url p0 = u"
proof -
  from parse_property_page_steps [OF assms] obtain p1 p2 where
    a: "extract_sell_price (BeautifulSoup w html)
          (Property u (extract_property_id u) (now w)) = Inr p1"
    and b: "extract_valuation (BeautifulSoup w html) p1 = Inr p2"
    and c: "extract_numbers w (BeautifulSoup w html) p2 = Inr p0"
    by auto
  from extract_sell_price_keeps [OF a] extract_valuation_keeps [OF b]
    extract_numbers_keeps [OF c]
  show "transactions p0 = []" and "url p0 = u" by (simp_all add: Property_def)
qed

text \<open>The stored projection is the projection of the stored string.\<close>

lemma parse_price_hkd_prefix:
  "parse_price_to_millions (Some (''HKD$'' @ g)) = parse_price_to_millions (Some g)"
  by (cases g) (simp_all add: parse_price_to_millions_def price_search_def strip_def)

lemma set_sell_price_projection:
  "set_sell_price shown parsed p = Inr p' \<Longrightarrow>
   parse_price_to_millions (Some shown) = parse_price_to_millions (Some parsed) \<Longrightarrow>
   Inr (sell_price_millions p') = parse_price_to_millions (sell_price p')"
  by (auto simp: set_sell_price_def split: sum.splits)

lemma set_sell_price_same:
  "set_sell_price t t p = Inr p' \<Longrightarrow>
   Inr (sell_price_millions p') = parse_price_to_millions (sell_price p')"
  by (rule set_sell_price_projection [OF _ refl])

lemma set_sell_price_hkd:
  "set_sell_price (CHR ''H'' # CHR ''K'' # CHR ''D'' # CHR ''$'' # g) g p = Inr p' \<Longrightarrow>
   Inr (sell_price_millions p') = parse_price_to_millions (sell_price p')"
  using set_sell_price_projection [OF _ parse_price_hkd_prefix, of g p p'] by simp

lemma sell_price_method1_projection:
  assumes "sell_price_method1 soup p = Inr p'"
    and "Inr (sell_price_millions p) = parse_price_to_millions (sell_price p)"
  shows "Inr (sell_price_millions p') = parse_price_to_millions (sell_price p')"
  using assms
  by (auto simp: sell_price_method1_def split: option.splits dest: set_sell_price_same)

lemma sell_price_method2_projection:
  assumes "sell_price_method2 soup p = Inr p'"
    and "Inr (sell_price_millions p) = parse_price_to_millions (sell_price p)"
  shows "Inr (sell_price_millions p') = parse_price_to_millions (sell_price p')"
  using assms
  by (auto simp: sell_price_method2_def Let_def split: option.splits if_splits
      dest: set_sell_price_same)

lemma sell_price_method3_projection:
  assumes "sell_price_method3 soup p = Inr p'"
    and "Inr (sell_price_millions p) = parse_price_to_millions (sell_price p)"
  shows "Inr (sell_price_millions p') = parse_price_to_millions (sell_price p')"
  using assms
  by (auto simp: sell_price_method3_def split: option.splits if_splits
      dest: set_sell_price_hkd)

lemma extract_sell_price_projection:
  assumes "extract_sell_price soup p = Inr p'"
    and "Inr (sell_price_millions p) = parse_price_to_millions (sell_price p)"
  shows "Inr (sell_price_millions p') = parse_price_to_millions (sell_price p')"
proof -
  from assms(1) obtain p1 p2 where
    a: "sell_price_method1 soup p = Inr p1" "sell_price_method2 soup p1 = Inr p2"
       "sell_price_method3 soup p2 = Inr p'"
    by (auto simp: extract_sell_price_def split: sum.splits)
  show ?thesis
    using sell_price_method3_projection [OF a(3)
        sell_price_method2_projection [OF a(2)
          sell_price_method1_projection [OF a(1) assms(2)]]] .
qed

lemma extract_valuation_projection:
  assumes "extract_valuation soup p = Inr p'"
    and "Inr (valuation_millions p) = parse_price_to_millions (valuation p)"
  shows "Inr (valuation_millions p') = parse_price_to_millions (valuation p')"
  using assms
  by (auto simp: extract_valuation_def set_valuation_def Let_def
      split: sum.splits option.splits if_splits)

lemma parse_property_page_projection:
  assumes "parse_property_page w html u = Inr (p, turls)"
  shows "Inr (sell_price_millions p) = parse_price_to_millions (sell_price p)"
    and "Inr (valuation_millions p) = parse_price_to_millions (valuation p)"
proof -
  let ?p0 = "Property u (extract_property_id u) (now w)"
  from parse_property_page_steps [OF assms] obtain p1 p2 where
    a: "extract_sell_price (BeautifulSoup w html) ?p0 = Inr p1"
    and b: "extract_valuation (BeautifulSoup w html) p1 = Inr p2"
    and c: "extract_numbers w (BeautifulSoup w html) p2 = Inr p"
    by auto
  have s0: "Inr (sell_price_millions ?p0) = parse_price_to_millions (sell_price ?p0)"
    and v0: "Inr (valuation_millions ?p0) = parse_price_to_millions (valuation ?p0)"
    by (simp_all add: Property_def parse_price_to_millions_def)
  have s1: "Inr (sell_price_millions p1) = parse_price_to_millions (sell_price p1)"
    using a s0 by (rule extract_sell_price_projection)
  have v1: "Inr (valuation_millions p1) = parse_price_to_millions (valuation p1)"
    using extract_sell_price_keeps [OF a] v0 by simp
  have "Inr (sell_price_millions p2) = parse_price_to_millions (sell_price p2)"
    using extract_valuation_keeps [OF b] s1 by simp
  then show "Inr (sell_price_millions p) = parse_price_to_millions (sell_price p)"
    using extract_numbers_keeps [OF c] by simp
  have "Inr (valuation_millions p2) = parse_price_to_millions (valuation p2)"
    using b v1 by (rule extract_valuation_projection)
  then show "Inr (valuation_millions p) = parse_price_to_millions (valuation p)"
    using extract_numbers_keeps [OF c] by simp
qed

lemma extract_txn_numbers_updates:
  "extract_txn_numbers w soup t = Inr t' \<Longrightarrow>
   \<exists>a b c. t' = t\<lparr>txn_gross_area_sqft := a, txn_saleable_area_sqft := b, txn_bedrooms := c\<rparr>"
  by (auto simp: extract_txn_numbers_def split: sum.splits)

lemma parse_transaction_page_steps:
  "parse_transaction_page w html u = Inr t \<Longrightarrow>
   \<exists>t1. extract_sold_price (BeautifulSoup w html) (Transaction u) = Inr t1
        \<and> extract_txn_numbers w (BeautifulSoup w html) t1 = Inr t"
  by (auto simp: parse_transaction_page_def Let_def split: sum.splits)

lemma extract_sold_price_projection:
  "extract_sold_price soup (Transaction u) = Inr t \<Longrightarrow>
   Inr (sold_price_millions t) = parse_price_to_millions (sold_price t) \<and> txn_url t = Some u"
  by (auto simp: extract_sold_price_def set_sold_price_def Let_def Transaction_def
      parse_price_to_millions_def [of None]
      split: sum.splits option.splits if_splits)

lemma parse_transaction_page_projection:
  assumes "parse_transaction_page w html u = Inr t"
  shows "Inr (sold_price_millions t) = parse_price_to_millions (sold_price t)"
proof -
  from parse_transaction_page_steps [OF assms] obtain t1 where
    a: "extract_sold_price (BeautifulSoup w html) (Transaction u) = Inr t1"
    and b: "extract_txn_numbers w (BeautifulSoup w html) t1 = Inr t"
    by auto
  from extract_sold_price_projection [OF a] extract_txn_numbers_updates [OF b]
  show ?thesis by auto
qed

lemma parse_transaction_page_url:
  assumes "parse_transaction_page w html u = Inr t"
  shows "txn_url t = Some u"
proof -
  from parse_transaction_page_steps [OF assms] obtain t1 where
    a: "extract_sold_price (BeautifulSoup w html) (Transaction u) = Inr t1"
    and b: "extract_txn_numbers w (BeautifulSoup w html) t1 = Inr t"
    by auto
  from extract_sold_price_projection [OF a] extract_txn_numbers_updates [OF b]
  show ?thesis by auto
qed

lemma scrape_transactions_result:
  "scrape_transactions w urls p = Inr p' \<Longrightarrow>
   \<exists>ts. p' = p\<lparr>transactions := transactions p @ ts\<rparr>
        \<and> map txn_url ts = map Some (filter (\<lambda>x. \<not> fetch_failed w x) urls)"
proof (induction urls arbitrary: p)
  case Nil
  then show ?case by simp
next
  case (Cons x urls)
  show ?case
  proof (cases "fetch_failed w x")
    case True
    then have "scrape_transactions w urls p = Inr p'"
      using Cons.prems by (auto simp: fetch_failed_def split: option.splits if_splits)
    from Cons.IH [OF this] True show ?thesis by simp
  next
    case False
    then obtain html where h: "fetch_page w x = Some html" "html \<noteq> []"
      by (auto simp: fetch_failed_def split: option.splits)
    then obtain t where t: "parse_transaction_page w html x = Inr t"
      and r: "scrape_transactions w urls (p\<lparr>transactions := transactions p @ [t]\<rparr>) = Inr p'"
      using Cons.prems by (auto split: sum.splits)
    from Cons.IH [OF r] obtain ts where
      ts: "p' = p\<lparr>transactions := transactions p @ [t] @ ts\<rparr>"
          "map txn_url ts = map Some (filter (\<lambda>x. \<not> fetch_failed w x) urls)"
      by auto
    have "map txn_url (t # ts) = map Some (filter (\<lambda>x. \<not> fetch_failed w x) (x # urls))"
      using ts(2) False parse_transaction_page_url [OF t] by simp
    then show ?thesis using ts(1) by (intro exI [of _ "t # ts"]) simp
  qed
qed

lemma scrape_property_result:
  assumes "scrape_property w u = Inr (Some p)"
  shows "\<exists>html p0 turls.
           fetch_page w u = Some html \<and> html \<noteq> []
           \<and> parse_property_page w html u = Inr (p0, turls)
           \<and> p\<lparr>transactions := []\<rparr> = p0
           \<and> map txn_url (transactions p)
             = map Some (filter (\<lambda>x. \<not> fetch_failed w x) (take 5 turls))"
proof -
  from assms obtain html p0 turls where
    h: "fetch_page w u = Some html" "html \<noteq> []"
    and pp: "parse_property_page w html u = Inr (p0, turls)"
    and st: "scrape_transactions w (take 5 turls) p0 = Inr p"
    by (auto simp: scrape_property_def split: option.splits if_splits sum.splits)
  from scrape_transactions_result [OF st] obtain ts where
    ts: "p = p0\<lparr>transactions := transactions p0 @ ts\<rparr>"
        "map txn_url ts = map Some (filter (\<lambda>x. \<not> fetch_failed w x) (take 5 turls))"
    by auto
  have e: "transactions p0 = []" using pp by (rule parse_property_page_transactions(1))
  then have "p\<lparr>transactions := []\<rparr> = p0" using ts(1) by simp
  moreover have "transactions p = ts" using ts(1) e by simp
  ultimately show ?thesis using h pp ts(2) by auto
qed

lemma scrape_property_failed: "fetch_failed w u \<Longrightarrow> scrape_property w u = Inr None"
  by (auto simp: scrape_property_def fetch_failed_def split: option.splits)

lemma not_none_Cons_cong:
  "not_none xs = not_none ys \<Longrightarrow> not_none (x # xs) = not_none (x # ys)"
  by (cases x) auto

lemma gather_skip:
  "scrape_property w u = Inr None \<Longrightarrow>
   (case gather (map (scrape_property w) (us @ u # vs)) of
      Inl e \<Rightarrow> Some (Inl e) | Inr results \<Rightarrow> Some (Inr (not_none results)))
   = (case gather (map (scrape_property w) (us @ vs)) of
        Inl e \<Rightarrow> Some (Inl e) | Inr results \<Rightarrow> Some (Inr (not_none results)))"
  by (induction us) (auto split: sum.splits intro: not_none_Cons_cong)

lemma scrape_tasks_skip:
  "0 < max_concurrent w \<Longrightarrow> scrape_property w u = Inr None \<Longrightarrow>
   scrape_tasks w (us @ u # vs) = scrape_tasks w (us @ vs)"
  using gather_skip [of w u us vs] by (simp add: scrape_tasks_def)

text \<open>The tasks that return give their records, in the order of the URLs.\<close>

lemma gather_records:
  "list_all (task_returns w) urls \<Longrightarrow>
   \<exists>results. gather (map (scrape_property w) urls) = Inr results
             \<and> not_none results = concat (map (task_records w) urls)"
proof (induction urls)
  case Nil
  then show ?case by simp
next
  case (Cons u urls)
  from Cons.prems obtain r where r: "scrape_property w u = Inr r"
    by (auto simp: task_returns_def split: sum.splits)
  from Cons obtain results where
    g: "gather (map (scrape_property w) urls) = Inr results"
       "not_none results = concat (map (task_records w) urls)"
    by auto
  have "gather (map (scrape_property w) (u # urls)) = Inr (r # results)"
    using r g(1) by simp
  moreover have "not_none (r # results) = concat (map (task_records w) (u # urls))"
    using r g(2) by (cases r) (simp_all add: task_records_def)
  ultimately show ?case by blast
qed

lemma scrape_tasks_records:
  assumes "0 < max_concurrent w" and "list_all (task_returns w) urls"
  shows "scrape_tasks w urls = Some (Inr (concat (map (task_records w) urls)))"
proof -
  from gather_records [OF assms(2)] obtain results where
    "gather (map (scrape_property w) urls) = Inr results"
    "not_none results = concat (map (task_records w) urls)"
    by blast
  then show ?thesis using assms(1) by (simp add: scrape_tasks_def)
qed

text \<open>A detail task returns a record when its page and the pages of its children do.\<close>

lemma scrape_transactions_returns:
  "list_all (child_returns w) urls \<Longrightarrow> \<exists>p'. scrape_transactions w urls p = Inr p'"
proof (induction urls arbitrary: p)
  case Nil
  then show ?case by simp
next
  case (Cons x urls)
  then show ?case
    by (auto simp: child_returns_def split: option.splits sum.splits if_splits)
qed

lemma scrape_property_returns:
  assumes "fetch_page w u = Some html" and "html \<noteq> []"
    and "parse_property_page w html u = Inr (p0, turls)"
    and "list_all (child_returns w) (take 5 turls)"
  shows "\<exists>p. scrape_property w u = Inr (Some p)"
proof -
  from scrape_transactions_returns [OF assms(4)] obtain p where
    "scrape_transactions w (take 5 turls) p0 = Inr p"
    by blast
  then show ?thesis using assms(1,2,3) by (simp add: scrape_property_def)
qed

lemma length_filter_split:
  "length (filter P xs) + length (filter (\<lambda>x. \<not> P x) xs) = length xs"
  by (induction xs) auto

text \<open>The records of a run have pairwise different URLs.\<close>

lemma scrape_property_url: "scrape_property w u = Inr (Some p) \<Longrightarrow> url p = u"
proof -
  assume "scrape_property w u = Inr (Some p)"
  from scrape_property_result [OF this] obtain html p0 turls where
    a: "parse_property_page w html u = Inr (p0, turls)" "p\<lparr>transactions := []\<rparr> = p0"
    by blast
  have "url p = url (p\<lparr>transactions := []\<rparr>)" by simp
  then show ?thesis using a(2) parse_property_page_transactions(2) [OF a(1)] by simp
qed

lemma gather_urls:
  "gather (map (scrape_property w) us) = Inr rs \<Longrightarrow>
   map url (not_none rs) = filter (\<lambda>u. scrape_property w u \<noteq> Inr None) us"
proof (induction us arbitrary: rs)
  case Nil
  then show ?case by simp
next
  case (Cons u us)
  from Cons.prems obtain r rs' where
    r: "scrape_property w u = Inr r" "gather (map (scrape_property w) us) = Inr rs'"
       "rs = r # rs'"
    by (auto split: sum.splits)
  show ?case
  proof (cases r)
    case None
    then show ?thesis using r Cons.IH [OF r(2)] by simp
  next
    case (Some p)
    then show ?thesis using r Cons.IH [OF r(2)] scrape_property_url [of w u p] by simp
  qed
qed

lemma scrape_all_distinct_urls:
  assumes "scrape_all w base_url max_pages max_properties = Some (Inr ps)"
  shows "distinct (map url ps)"
proof -
  from assms obtain property_urls where
    l: "snd (scrape_property_listings w base_url max_pages) = Inr property_urls"
    and t: "scrape_tasks w (py_take max_properties property_urls) = Some (Inr ps)"
    by (auto simp: scrape_all_def split: sum.splits)
  from listing_loop_returns [OF l [unfolded scrape_property_listings_def]]
  have "distinct property_urls" by (auto simp: add_link_distinct)
  then have d: "distinct (py_take max_properties property_urls)" by (simp add: py_take_def)
  from t obtain rs where
    rs: "gather (map (scrape_property w) (py_take max_properties property_urls)) = Inr rs"
        "ps = not_none rs"
    by (auto simp: scrape_tasks_def split: sum.splits if_splits)
  show ?thesis using gather_urls [OF rs(1)] rs(2) d by simp
qed

section \<open>The gate's invariant\<close>

lemma count_set_new:
  "i < length xs \<Longrightarrow> xs ! i \<noteq> a \<Longrightarrow>
   length (filter (\<lambda>t. t = a) (xs[i := a])) = Suc (length (filter (\<lambda>t. t = a) xs))"
proof (induction xs arbitrary: i)
  case Nil
  then show ?case by simp
next
  case (Cons x xs)
  then show ?case by (cases i) auto
qed

lemma count_set_other:
  "i < length xs \<Longrightarrow> xs ! i = a \<Longrightarrow> b \<noteq> a \<Longrightarrow>
   Suc (length (filter (\<lambda>t. t = a) (xs[i := b]))) = length (filter (\<lambda>t. t = a) xs)"
proof (induction xs arbitrary: i)
  case Nil
  then show ?case by simp
next
  case (Cons x xs)
  then show ?case by (cases i) auto
qed

lemma step_invariant:
  assumes "step g g'"
  shows "permits g' + fetching g' = permits g + fetching g
         \<and> length (tasks g') = length (tasks g)"
  using assms
proof cases
  case (acquire i)
  then show ?thesis
    using count_set_new [of i "tasks g" Fetching] by (simp add: fetching_def)
next
  case (release i)
  then show ?thesis
    using count_set_other [of i "tasks g" Fetching Finished] by (simp add: fetching_def)
qed

lemma reachable_invariant:
  "reachable K n g \<Longrightarrow> permits g + fetching g = K \<and> length (tasks g) = n"
proof (induction rule: reachable.induct)
  case (at_start K n)
  then show ?case by (simp add: start_def fetching_def)
next
  case (after_step K n g g')
  then show ?case using step_invariant [of g g'] by simp
qed

text \<open>While fewer than \<open>K\<close> tasks are in the section, a pending task can enter.\<close>

lemma gate_admits:
  assumes "reachable K n g" and "fetching g < K"
    and "i < length (tasks g)" and "tasks g ! i = Pending"
  shows "step g (g\<lparr>permits := permits g - 1, tasks := (tasks g)[i := Fetching]\<rparr>)"
proof -
  have "0 < permits g" using reachable_invariant [OF assms(1)] assms(2) by simp
  with assms(3,4) show ?thesis by (rule acquire)
qed

section \<open>The two tables\<close>

lemma parent_row_keys:
  "map_of (dict_pop ''transactions'' (asdict p)) ''property_id'' = Some (VStr (property_id p))"
  "map_of (dict_pop ''transactions'' (asdict p)) ''url'' = Some (VStr (url p))"
  "map_of (dict_pop ''transactions'' (asdict p)) ''transactions'' = None"
  by (simp_all add: dict_pop_def asdict_def)

lemma child_row:
  "dict_set ''property_url'' (VStr u) (dict_set ''property_id'' (VStr i) (asdict_transaction t))
   = asdict_transaction t @ [(''property_id'', VStr i), (''property_url'', VStr u)]"
  by (simp add: dict_set_def asdict_transaction_def)

lemma child_row_keys:
  "map_of (asdict_transaction t @ [(''property_id'', VStr i), (''property_url'', VStr u)])
     ''property_id'' = Some (VStr i)"
  "map_of (asdict_transaction t @ [(''property_id'', VStr i), (''property_url'', VStr u)])
     ''property_url'' = Some (VStr u)"
  by (simp_all add: asdict_transaction_def)

lemma distinct_count_one:
  "distinct (map f xs) \<Longrightarrow> x \<in> set xs \<Longrightarrow> length (filter (\<lambda>y. f y = f x) xs) = 1"
proof (induction xs)
  case Nil
  then show ?case by simp
next
  case (Cons a xs)
  show ?case
  proof (cases "f a = f x")
    case True
    then have "f x \<notin> f ` set xs" using Cons.prems(1) by simp
    then have "filter (\<lambda>y. f y = f x) xs = []"
      unfolding filter_empty_conv by (metis image_eqI)
    then show ?thesis using True by simp
  next
    case False
    then have "x \<in> set xs" using Cons.prems(2) by auto
    then show ?thesis using Cons False by simp
  qed
qed

lemma transactions_data_rows:
  "transactions_data ps
   = concat (map (\<lambda>p. map (\<lambda>t. asdict_transaction t
                                  @ [(''property_id'', VStr (property_id p)),
                                     (''property_url'', VStr (url p))])
                          (transactions p)) ps)"
proof -
  have "transaction_rows
        = (\<lambda>p. map (\<lambda>t. asdict_transaction t
                             @ [(''property_id'', VStr (property_id p)),
                                (''property_url'', VStr (url p))])
                     (transactions p))"
    by (rule ext) (simp add: transaction_rows_def child_row)
  then show ?thesis by (simp add: transactions_data_def)
qed

lemma fk_matches_rows:
  "fk_matches (asdict_transaction t @ [(''property_id'', VStr (property_id p)),
                                       (''property_url'', VStr (url p))])
              (dict_pop ''transactions'' (asdict q))
   = ((property_id q, url q) = (property_id p, url p))"
  unfolding fk_matches_def parent_row_keys child_row_keys by auto

lemma fk_unique:
  assumes "distinct (map (\<lambda>p. (property_id p, url p)) ps)"
  shows "list_all (\<lambda>child. length (filter (fk_matches child) (properties_data ps)) = 1)
           (transactions_data ps)"
proof -
  have "length (filter (fk_matches child) (properties_data ps)) = 1"
    if "child \<in> set (transactions_data ps)" for child
  proof -
    from that obtain p t where p: "p \<in> set ps"
      and c: "child = asdict_transaction t @ [(''property_id'', VStr (property_id p)),
                                              (''property_url'', VStr (url p))]"
      by (auto simp: transactions_data_rows)
    have "length (filter (fk_matches child) (properties_data ps))
          = length (filter (\<lambda>q. (property_id q, url q) = (property_id p, url p)) ps)"
      unfolding properties_data_def filter_map length_map comp_def c fk_matches_rows ..
    also have "\<dots> = 1"
      using distinct_count_one [OF assms p] by simp
    finally show ?thesis .
  qed
  then show ?thesis by (simp add: list_all_iff)
qed

section \<open>Claims\<close>

text \<open>
  C1. The price projection on the reference examples: \<open>HKD$1.5M\<close> gives 1.5, \<open>3000000\<close>
  gives 3.0, and \<open>None\<close> gives \<open>None\<close>. In every record that a parser returns, each
  numeric projection is the projection of the price string stored next to it: \<open>None\<close>
  when the string is \<open>None\<close>, and a function of the string alone when it is present.
\<close>

theorem C1_price_projection:
  "parse_price_to_millions (Some ''HKD$1.5M'') = Inr (Some (3 / 2))
   \<and> parse_price_to_millions (Some ''3000000'') = Inr (Some 3)
   \<and> parse_price_to_millions None = Inr None
   \<and> (parse_property_page w html u = Inr (p, urls) \<longrightarrow>
        Inr (sell_price_millions p) = parse_price_to_millions (sell_price p)
        \<and> Inr (valuation_millions p) = parse_price_to_millions (valuation p))
   \<and> (parse_transaction_page w html' u' = Inr t \<longrightarrow>
        Inr (sold_price_millions t) = parse_price_to_millions (sold_price t))"
proof -
  have "parse_price_to_millions (Some ''HKD$1.5M'') = Inr (Some (3 / 2))"
    and "parse_price_to_millions (Some ''3000000'') = Inr (Some 3)"
    and "parse_price_to_millions None = Inr None"
    by (simp_all add: price_defs)
  then show ?thesis
    using parse_property_page_projection [of w html u p urls]
      parse_transaction_page_projection [of w html' u' t]
    by simp
qed

theorem C1_price_projection_witness:
  "\<exists>p urls t.
     parse_property_page example_world ''P2'' ''http://h/property-2'' = Inr (p, urls)
     \<and> sell_price p = Some ''HKD$1.5M'' \<and> sell_price_millions p = Some (3 / 2)
     \<and> valuation p = Some ''3000000'' \<and> valuation_millions p = Some 3
     \<and> Inr (sell_price_millions p) = parse_price_to_millions (sell_price p)
     \<and> Inr (valuation_millions p) = parse_price_to_millions (valuation p)
     \<and> parse_transaction_page example_world ''T2'' ''http://h/transaction/deal-2'' = Inr t
     \<and> sold_price t = Some ''HKD$2M'' \<and> sold_price_millions t = Some 2
     \<and> Inr (sold_price_millions t) = parse_price_to_millions (sold_price t)"
proof -
  obtain p urls where
    h1: "parse_property_page example_world ''P2'' ''http://h/property-2'' = Inr (p, urls)"
    and v1: "sell_price p = Some ''HKD$1.5M''" "sell_price_millions p = Some (3 / 2)"
            "valuation p = Some ''3000000''" "valuation_millions p = Some 3"
    by (simp add: parse_property_page_def Property_def chain_defs number_defs price_defs
        example_defs)
  obtain t where
    h2: "parse_transaction_page example_world ''T2'' ''http://h/transaction/deal-2'' = Inr t"
    and v2: "sold_price t = Some ''HKD$2M''" "sold_price_millions t = Some 2"
    by (simp add: parse_transaction_page_def extract_sold_price_def set_sold_price_def
        Transaction_def number_defs price_defs example_defs)
  note c = C1_price_projection [of example_world "''P2''" "''http://h/property-2''" p urls
      "''T2''" "''http://h/transaction/deal-2''" t]
  have "Inr (sell_price_millions p) = parse_price_to_millions (sell_price p)
        \<and> Inr (valuation_millions p) = parse_price_to_millions (valuation p)"
    using c h1 by (elim conjE) simp
  moreover have "Inr (sold_price_millions t) = parse_price_to_millions (sold_price t)"
    using c h2 by (elim conjE) simp
  ultimately show ?thesis using h1 h2 v1 v2 by (intro exI [of _ p] exI [of _ urls] exI [of _ t]) simp
qed

text \<open>
  C2. Re-applying the projection to the rendering of its own result does not give the
  result back: \<open>HKD$1.5M\<close> projects to 1.5, whose rendering \<open>1.5\<close> has no magnitude
  suffix and projects to 0.0000015.
\<close>

theorem C2_rendering_counterexample:
  "parse_price_to_millions (Some ''HKD$1.5M'') = Inr (Some (3 / 2))
   \<and> py_float ''1.5'' = Inr (3 / 2)
   \<and> parse_price_to_millions (Some ''1.5'') = Inr (Some (3 / 2000000))
   \<and> parse_price_to_millions (Some ''1.5'') \<noteq> Inr (Some (3 / 2))"
  by (simp add: price_defs)

text \<open>
  C2, amended. Let the projection return \<open>v\<close> on some price string, and let \<open>d\<close> be a plain
  decimal rendering of \<open>v\<close>: digits and at most one point, read by \<open>float\<close> as \<open>v\<close>. Then
  the projection of \<open>d\<close> followed by the magnitude suffix \<open>M\<close> is \<open>v\<close> again, and the
  projection of \<open>d\<close> alone is \<open>v\<close> divided by 1,000,000.
\<close>

theorem C2_price_reapplied:
  assumes "parse_price_to_millions (Some s) = Inr (Some v)"
    and "list_all is_number_char d" and "py_float d = Inr v"
  shows "parse_price_to_millions (Some (d @ ''M'')) = Inr (Some v)
         \<and> parse_price_to_millions (Some d) = Inr (Some (v / 1000000))"
proof -
  have ne: "d \<noteq> []" using assms(3) by (rule py_float_nonempty)
  have all: "\<forall>x\<in>set d. is_number_char x" using assms(2) by (simp add: list_all_iff)
  have noH: "CHR ''H'' \<notin> set d" "CHR ''H'' \<notin> set (d @ ''M'')"
    using all number_char_not_H by auto
  have nosp: "list_all (\<lambda>c. \<not> is_space c) d" "list_all (\<lambda>c. \<not> is_space c) (d @ ''M'')"
    using all number_char_not_space by (auto simp: list_all_iff is_space_def)
  have a: "strip (re_sub_hkd d) = d" "strip (re_sub_hkd (d @ ''M'')) = d @ ''M''"
    using noH nosp by (simp_all add: re_sub_hkd_no_H strip_no_space)
  show ?thesis
    using ne a price_search_literal[OF assms(2) ne] assms(3)
    by (simp add: parse_price_to_millions_def)
qed

theorem C2_price_reapplied_witness:
  "parse_price_to_millions (Some ''HKD$1.5M'') = Inr (Some (3 / 2))
   \<and> list_all is_number_char ''1.5''
   \<and> py_float ''1.5'' = Inr (3 / 2)
   \<and> parse_price_to_millions (Some ''1.5M'') = Inr (Some (3 / 2))
   \<and> parse_price_to_millions (Some ''1.5'') = Inr (Some (3 / 2 / 1000000))"
proof -
  have h1: "parse_price_to_millions (Some ''HKD$1.5M'') = Inr (Some (3 / 2))"
    by (simp add: price_defs)
  have h2: "list_all is_number_char ''1.5''" by (simp add: char_class_defs)
  have h3: "py_float ''1.5'' = Inr (3 / 2)" by (simp add: price_defs)
  show ?thesis using h1 h2 h3 C2_price_reapplied [OF h1 h2 h3] by simp
qed

text \<open>
  C3. Strict precedence in the sell-price chain. When the table lookup of method 1 finds
  a non-empty price text \<open>t\<close>, the chain's result is the result of method 1: the record
  with \<open>t\<close> and its projection, when the projection does not raise. A record that the
  parser returns then holds \<open>t\<close> and its projection, whatever the text-anchor scan and the
  free-text patterns would find on the same page.
\<close>

theorem C3_sell_price_precedence:
  assumes "sell_price_td (BeautifulSoup w html) = Some (Some t)" and "t \<noteq> []"
  shows "extract_sell_price (BeautifulSoup w html) p0
           = sell_price_method1 (BeautifulSoup w html) p0
         \<and> (parse_price_to_millions (Some t) = Inr m \<longrightarrow>
              extract_sell_price (BeautifulSoup w html) p0
              = Inr (p0\<lparr>sell_price := Some t, sell_price_millions := m\<rparr>))
         \<and> (parse_property_page w html u = Inr (p, urls) \<longrightarrow>
              sell_price p = Some t
              \<and> Inr (sell_price_millions p) = parse_price_to_millions (Some t))"
proof -
  have c: "extract_sell_price (BeautifulSoup w html) q
           = (case parse_price_to_millions (Some t) of
                Inl e \<Rightarrow> Inl e
              | Inr m \<Rightarrow> Inr (q\<lparr>sell_price := Some t, sell_price_millions := m\<rparr>))" for q
    using assms
    by (simp add: extract_sell_price_def sell_price_method1_def sell_price_method2_def
        sell_price_method3_def set_sell_price_def truthy_def split: sum.splits)
  have m1: "sell_price_method1 (BeautifulSoup w html) p0
            = (case parse_price_to_millions (Some t) of
                 Inl e \<Rightarrow> Inl e
               | Inr m \<Rightarrow> Inr (p0\<lparr>sell_price := Some t, sell_price_millions := m\<rparr>))"
    using assms by (simp add: sell_price_method1_def set_sell_price_def)
  have r: "sell_price p = Some t
           \<and> Inr (sell_price_millions p) = parse_price_to_millions (Some t)"
    if "parse_property_page w html u = Inr (p, urls)"
  proof -
    from parse_property_page_steps [OF that] obtain p1 p2 where
      a: "extract_sell_price (BeautifulSoup w html)
            (Property u (extract_property_id u) (now w)) = Inr p1"
      and b: "extract_valuation (BeautifulSoup w html) p1 = Inr p2"
      and n: "extract_numbers w (BeautifulSoup w html) p2 = Inr p"
      by auto
    from a c have "sell_price p1 = Some t
        \<and> Inr (sell_price_millions p1) = parse_price_to_millions (Some t)"
      by (auto split: sum.splits)
    then show ?thesis
      using extract_valuation_keeps [OF b] extract_numbers_keeps [OF n] by simp
  qed
  show ?thesis using c [of p0] m1 r by simp
qed

text \<open>
  On the example page the three methods disagree (1.5M in the table, 9M next to the
  label, 7.2 M in the text), and the table's value is the result.
\<close>

theorem C3_sell_price_precedence_witness:
  "sell_price_td (BeautifulSoup example_world ''P2'') = Some (Some ''HKD$1.5M'')
   \<and> extract_value_from_row example_label = ''HKD$9M''
   \<and> re_search sell_hkd_amount_at (page_text (BeautifulSoup example_world ''P2''))
       = Some ''7.2 M''
   \<and> (\<exists>p urls.
         parse_property_page example_world ''P2'' ''http://h/property-2'' = Inr (p, urls)
         \<and> sell_price p = Some ''HKD$1.5M'' \<and> sell_price_millions p = Some (3 / 2))"
proof -
  have h1: "sell_price_td (BeautifulSoup example_world ''P2'') = Some (Some ''HKD$1.5M'')"
    by (simp add: example_defs)
  have h2: "''HKD$1.5M'' \<noteq> []" by simp
  have h3: "parse_price_to_millions (Some ''HKD$1.5M'') = Inr (Some (3 / 2))"
    by (simp add: price_defs)
  have h4: "extract_value_from_row example_label = ''HKD$9M''"
    by (simp add: extract_value_from_row_def example_defs)
  have h5: "re_search sell_hkd_amount_at (page_text (BeautifulSoup example_world ''P2''))
            = Some ''7.2 M''"
    by (simp add: example_defs sell_hkd_amount_at_def hkd_amount_at_def ci_prefix_def
        to_lower_def char_class_defs is_amount_char_def)
  obtain p urls where
    h6: "parse_property_page example_world ''P2'' ''http://h/property-2'' = Inr (p, urls)"
    by (simp add: parse_property_page_def Property_def chain_defs number_defs price_defs
        example_defs)
  have "sell_price p = Some ''HKD$1.5M'' \<and> sell_price_millions p = Some (3 / 2)"
    using h3 h6
      C3_sell_price_precedence [OF h1 h2, of "Property [] [] []" "Some (3 / 2)"
        "''http://h/property-2''" p urls]
    by simp
  then show ?thesis using h1 h4 h5 h6 by simp
qed

text \<open>
  C4. The price projection raises on a price text whose first digit-or-dot run is not a
  number: on \<open>N.A.\<close> the pattern matches the lone dot and \<open>float\<close> raises \<open>ValueError\<close>.
\<close>

theorem C4_price_raises:
  "parse_price_to_millions (Some ''N.A.'') = Inl ValueError"
  by (simp add: price_defs)




text \<open>
  C6. Failure isolation. A detail task whose fetch fails returns \<open>None\<close> and contributes
  no record, and with a gate of positive capacity the run over a list of URLs that
  contains it gives what the run over the other URLs gives. When no task raises, the run
  returns exactly the records of its tasks, in the order of the URLs. A detail task
  whose page is fetched and parsed returns a record even when fetches of its children
  fail, as long as no child parser raises: the record is the parsed one with
  transactions added, as many as the child URLs attempted less those whose fetch failed.
\<close>

theorem C6_failure_isolation:
  "(fetch_failed w u \<longrightarrow>
      scrape_property w u = Inr None
      \<and> task_records w u = []
      \<and> (0 < max_concurrent w \<longrightarrow>
           scrape_tasks w (us @ u # vs) = scrape_tasks w (us @ vs)))
   \<and> (0 < max_concurrent w \<and> list_all (task_returns w) urls \<longrightarrow>
        scrape_tasks w urls = Some (Inr (concat (map (task_records w) urls))))
   \<and> (fetch_page w u' = Some html' \<and> html' \<noteq> []
        \<and> parse_property_page w html' u' = Inr (p0', turls')
        \<and> list_all (child_returns w) (take 5 turls') \<longrightarrow>
        (\<exists>p. scrape_property w u' = Inr (Some p)
           \<and> p\<lparr>transactions := []\<rparr> = p0'
           \<and> length (transactions p) + length (filter (fetch_failed w) (take 5 turls'))
             = length (take 5 turls')))
   \<and> (scrape_property w u' = Inr (Some p) \<longrightarrow>
        (\<exists>html p0 turls.
           fetch_page w u' = Some html
           \<and> parse_property_page w html u' = Inr (p0, turls)
           \<and> p\<lparr>transactions := []\<rparr> = p0
           \<and> length (transactions p) + length (filter (fetch_failed w) (take 5 turls))
             = length (take 5 turls)))"
proof -
  have kept: "\<exists>html p0 turls.
           fetch_page w u' = Some html
           \<and> parse_property_page w html u' = Inr (p0, turls)
           \<and> q\<lparr>transactions := []\<rparr> = p0
           \<and> length (transactions q) + length (filter (fetch_failed w) (take 5 turls))
             = length (take 5 turls)"
    if "scrape_property w u' = Inr (Some q)" for q
  proof -
    from scrape_property_result [OF that] obtain html p0 turls where
      r: "fetch_page w u' = Some html" "parse_property_page w html u' = Inr (p0, turls)"
         "q\<lparr>transactions := []\<rparr> = p0"
         "map txn_url (transactions q)
          = map Some (filter (\<lambda>x. \<not> fetch_failed w x) (take 5 turls))"
      by blast
    from r(4) have "length (transactions q)
        = length (filter (\<lambda>x. \<not> fetch_failed w x) (take 5 turls))"
      by (metis length_map)
    then have "length (transactions q) + length (filter (fetch_failed w) (take 5 turls))
               = length (take 5 turls)"
      using length_filter_split [of "fetch_failed w" "take 5 turls"] by simp
    then show ?thesis using r(1,2,3) by blast
  qed
  have failed: "scrape_property w u = Inr None \<and> task_records w u = []
      \<and> (0 < max_concurrent w \<longrightarrow>
           scrape_tasks w (us @ u # vs) = scrape_tasks w (us @ vs))"
    if "fetch_failed w u"
  proof -
    have n: "scrape_property w u = Inr None" using that by (rule scrape_property_failed)
    then show ?thesis by (simp add: task_records_def scrape_tasks_skip)
  qed
  have produced: "\<exists>p. scrape_property w u' = Inr (Some p)
           \<and> p\<lparr>transactions := []\<rparr> = p0'
           \<and> length (transactions p) + length (filter (fetch_failed w) (take 5 turls'))
             = length (take 5 turls')"
    if a: "fetch_page w u' = Some html'" "html' \<noteq> []"
       "parse_property_page w html' u' = Inr (p0', turls')"
       "list_all (child_returns w) (take 5 turls')"
  proof -
    from scrape_property_returns [OF a] obtain q where
      q: "scrape_property w u' = Inr (Some q)"
      by blast
    from kept [OF q] a(1,3) show ?thesis using q by auto
  qed
  show ?thesis using failed produced kept [of p] scrape_tasks_records [of w urls] by blast
qed

theorem C6_failure_isolation_witness:
  "fetch_failed example_world ''http://h/property-1''
   \<and> scrape_property example_world ''http://h/property-1'' = Inr None
   \<and> (\<exists>p. scrape_property example_world ''http://h/property-2'' = Inr (Some p)
          \<and> length (transactions p) + 3 = 5
          \<and> scrape_tasks example_world [''http://h/property-1'', ''http://h/property-2'']
            = Some (Inr [p]))"
proof -
  let ?u1 = "''http://h/property-1''" and ?u2 = "''http://h/property-2''"
  have h1: "fetch_failed example_world ?u1"
    by (simp add: fetch_failed_def example_defs)
  have f2: "fetch_page example_world ?u2 = Some ''P2''" "''P2'' \<noteq> []"
    by (simp_all add: example_defs)
  obtain p0 turls where
    pp: "parse_property_page example_world ''P2'' ?u2 = Inr (p0, turls)"
    and tu: "take 5 turls
             = [''http://h/transaction/deal-1'', ''http://h/transaction/deal-2'',
                ''http://h/transaction/deal-3'', ''http://h/transaction/deal-4'',
                ''http://h/transaction/deal-5'']"
    by (simp add: parse_property_page_def Property_def chain_defs number_defs price_defs
        example_defs)
  have ch: "list_all (child_returns example_world) (take 5 turls)"
    unfolding tu
    by (simp add: child_returns_def parse_transaction_page_def extract_sold_price_def
        set_sold_price_def Transaction_def number_defs price_defs example_defs)
  have k: "0 < max_concurrent example_world" by (simp add: example_defs)
  note c = C6_failure_isolation [of example_world ?u1 "[]" "[?u2]" "[?u1, ?u2]" ?u2 "''P2''"
      p0 turls]
  from c f2 pp ch obtain p where
    sp: "scrape_property example_world ?u2 = Inr (Some p)"
    and n: "length (transactions p)
            + length (filter (fetch_failed example_world) (take 5 turls))
            = length (take 5 turls)"
    by blast
  have n3: "length (transactions p) + 3 = 5"
    using n unfolding tu by (simp add: fetch_failed_def example_defs)
  from c h1 have s1: "scrape_property example_world ?u1 = Inr None" by blast
  have tr: "list_all (task_returns example_world) [?u1, ?u2]"
    using s1 sp by (simp add: task_returns_def)
  from c k tr have "scrape_tasks example_world [?u1, ?u2]
      = Some (Inr (concat (map (task_records example_world) [?u1, ?u2])))"
    by blast
  then have "scrape_tasks example_world [?u1, ?u2] = Some (Inr [p])"
    using s1 sp by (simp add: task_records_def)
  with h1 s1 sp n3 show ?thesis by blast
qed

text \<open>
  C7. Bounded concurrency. In every state that a run with a gate of capacity \<open>K\<close> and any
  number of tasks can reach, at most \<open>K\<close> tasks are in their fetch-and-extract section.
\<close>

theorem C7_bounded_concurrency:
  assumes "reachable K n g"
  shows "fetching g \<le> K"
  using reachable_invariant [OF assms] by simp

theorem C7_bounded_concurrency_witness:
  "reachable 1 2 \<lparr>permits = 0, tasks = [Fetching, Pending]\<rparr>
   \<and> fetching \<lparr>permits = 0, tasks = [Fetching, Pending]\<rparr> \<le> 1"
proof -
  have "step (start 1 2) ((start 1 2)\<lparr>permits := permits (start 1 2) - 1,
          tasks := (tasks (start 1 2))[0 := Fetching]\<rparr>)"
    by (rule acquire) (simp_all add: start_def)
  then have s: "step (start 1 2) \<lparr>permits = 0, tasks = [Fetching, Pending]\<rparr>"
    by (simp add: start_def numeral_2_eq_2)
  have r: "reachable 1 2 \<lparr>permits = 0, tasks = [Fetching, Pending]\<rparr>"
    by (rule after_step [OF at_start s])
  show ?thesis using r C7_bounded_concurrency [OF r] by simp
qed

text \<open>
  C8. The tables as the claim states them fail at the edges: for an empty list no file is
  written, so there is no parent table; for records without transactions no child table
  is written; and when a record occurs twice in the list, each of its child rows matches
  two parent rows.
\<close>

theorem C8_tables_counterexample:
  "save_to_csv [] ''properties.csv'' ''transactions.csv'' = []
   \<and> map fst (save_to_csv [Property ''http://h/property-3'' ''3'' ''2024-01-01T00:00:00'']
                ''properties.csv'' ''transactions.csv'') = [''properties.csv'']
   \<and> map (\<lambda>child. length (filter (fk_matches child)
              (properties_data [hd example_properties, hd example_properties])))
         (transactions_data [hd example_properties, hd example_properties])
     = [2, 2, 2, 2]"
  by (simp add: save_to_csv_def example_properties_def sink_defs)

text \<open>
  C8, amended. For every list of N records with M_i transactions each, the parent rows
  are N, none with a \<open>transactions\<close> column; the child rows are the sum of the M_i, each
  the transaction's columns followed by the \<open>property_id\<close> and \<open>property_url\<close> of the
  record that owns it; when no two records share both identifier and URL, every child
  row matches exactly one parent row; and a table is written only when it has a row.
\<close>

theorem C8_tables:
  "length (properties_data ps) = length ps
   \<and> list_all (\<lambda>row. map_of row ''transactions'' = None) (properties_data ps)
   \<and> length (transactions_data ps) = sum_list (map (\<lambda>p. length (transactions p)) ps)
   \<and> transactions_data ps
     = concat (map (\<lambda>p. map (\<lambda>t. asdict_transaction t
                                    @ [(''property_id'', VStr (property_id p)),
                                       (''property_url'', VStr (url p))])
                            (transactions p)) ps)
   \<and> (distinct (map (\<lambda>p. (property_id p, url p)) ps) \<longrightarrow>
        list_all (\<lambda>child. length (filter (fk_matches child) (properties_data ps)) = 1)
          (transactions_data ps))
   \<and> save_to_csv ps properties_file transactions_file
     = (if ps = [] then [] else [(properties_file, CsvFile (properties_data ps))])
       @ (if sum_list (map (\<lambda>p. length (transactions p)) ps) = 0 then []
          else [(transactions_file, CsvFile (transactions_data ps))])"
proof -
  have n: "length (properties_data ps) = length ps" by (simp add: properties_data_def)
  have c: "list_all (\<lambda>row. map_of row ''transactions'' = None) (properties_data ps)"
    by (simp add: properties_data_def list_all_iff parent_row_keys)
  have m: "length (transactions_data ps) = sum_list (map (\<lambda>p. length (transactions p)) ps)"
    by (simp add: transactions_data_def transaction_rows_def length_concat comp_def)
  have e1: "(properties_data ps = []) = (ps = [])" by (simp add: properties_data_def)
  have e2: "(transactions_data ps = [])
            = (sum_list (map (\<lambda>p. length (transactions p)) ps) = 0)"
    using m by (metis length_0_conv)
  have w: "save_to_csv ps properties_file transactions_file
     = (if ps = [] then [] else [(properties_file, CsvFile (properties_data ps))])
       @ (if sum_list (map (\<lambda>p. length (transactions p)) ps) = 0 then []
          else [(transactions_file, CsvFile (transactions_data ps))])"
    unfolding save_to_csv_def e1 e2 by simp
  show ?thesis using n c m transactions_data_rows fk_unique w by blast
qed

theorem C8_tables_witness:
  "distinct (map (\<lambda>p. (property_id p, url p)) example_properties)
   \<and> length (properties_data example_properties) = 2
   \<and> length (transactions_data example_properties) = 2
   \<and> list_all (\<lambda>child. length (filter (fk_matches child)
                                   (properties_data example_properties)) = 1)
        (transactions_data example_properties)"
proof -
  have h: "distinct (map (\<lambda>p. (property_id p, url p)) example_properties)"
    by (simp add: example_properties_def Property_def)
  have s: "sum_list (map (\<lambda>p. length (transactions p)) example_properties) = 2"
    by (simp add: example_properties_def Property_def)
  have l: "length example_properties = 2" by (simp add: example_properties_def)
  note c = C8_tables [of example_properties "''properties.csv''" "''transactions.csv''"]
  have n: "length (properties_data example_properties) = 2"
    using c [THEN conjunct1] l by simp
  have m: "length (transactions_data example_properties) = 2"
    using c [THEN conjunct2, THEN conjunct2, THEN conjunct1] s by simp
  have u: "list_all (\<lambda>child. length (filter (fk_matches child)
                                     (properties_data example_properties)) = 1)
             (transactions_data example_properties)"
    using c [THEN conjunct2, THEN conjunct2, THEN conjunct2, THEN conjunct2, THEN conjunct1] h
    by (rule mp)
  show ?thesis using h n m u by (intro conjI)
qed

text \<open>
  C9. Children cap. A record returned by a detail task owns at most five transactions
  (the maximum the source fixes), and they are those of the first five links whose
  fetch succeeded, in the order of the links.
\<close>

theorem C9_children_cap:
  assumes "scrape_property w u = Inr (Some p)"
  shows "length (transactions p) \<le> 5
         \<and> (\<exists>html p0 turls.
               fetch_page w u = Some html
               \<and> parse_property_page w html u = Inr (p0, turls)
               \<and> map txn_url (transactions p)
                 = map Some (filter (\<lambda>x. \<not> fetch_failed w x) (take 5 turls)))"
proof -
  from scrape_property_result [OF assms] obtain html p0 turls where
    r: "fetch_page w u = Some html" "parse_property_page w html u = Inr (p0, turls)"
       "map txn_url (transactions p)
        = map Some (filter (\<lambda>x. \<not> fetch_failed w x) (take 5 turls))"
    by blast
  from r(3) have "length (transactions p)
      = length (filter (\<lambda>x. \<not> fetch_failed w x) (take 5 turls))"
    by (metis length_map)
  also have "\<dots> \<le> length (take 5 turls)" by (rule length_filter_le)
  also have "\<dots> \<le> 5" by simp
  finally show ?thesis using r by blast
qed

theorem C9_children_cap_witness:
  "\<exists>p. scrape_property example_world ''http://h/property-2'' = Inr (Some p)
       \<and> length (transactions p) \<le> 5
       \<and> map txn_url (transactions p)
         = [Some ''http://h/transaction/deal-2'', Some ''http://h/transaction/deal-5'']
       \<and> \<not> fetch_failed example_world ''http://h/transaction/deal-6''"
proof -
  let ?u2 = "''http://h/property-2''"
  obtain p0' turls' where
    pp: "parse_property_page example_world ''P2'' ?u2 = Inr (p0', turls')"
    and tu: "take 5 turls'
             = [''http://h/transaction/deal-1'', ''http://h/transaction/deal-2'',
                ''http://h/transaction/deal-3'', ''http://h/transaction/deal-4'',
                ''http://h/transaction/deal-5'']"
    by (simp add: parse_property_page_def Property_def chain_defs number_defs price_defs
        example_defs)
  have f2: "fetch_page example_world ?u2 = Some ''P2''" "''P2'' \<noteq> []"
    by (simp_all add: example_defs)
  have ch: "list_all (child_returns example_world) (take 5 turls')"
    unfolding tu
    by (simp add: child_returns_def parse_transaction_page_def extract_sold_price_def
        set_sold_price_def Transaction_def number_defs price_defs example_defs)
  from scrape_property_returns [OF f2 pp ch] obtain p where
    h: "scrape_property example_world ?u2 = Inr (Some p)"
    by blast
  from C9_children_cap [OF h] obtain html p0 turls where
    a: "length (transactions p) \<le> 5"
       "fetch_page example_world ?u2 = Some html"
       "parse_property_page example_world html ?u2 = Inr (p0, turls)"
       "map txn_url (transactions p)
        = map Some (filter (\<lambda>x. \<not> fetch_failed example_world x) (take 5 turls))"
    by blast
  from a(2) f2(1) have "html = ''P2''" by simp
  with a(3) pp have "turls = turls'" by simp
  with a(4) have "map txn_url (transactions p)
      = map Some (filter (\<lambda>x. \<not> fetch_failed example_world x) (take 5 turls'))"
    by simp
  then have "map txn_url (transactions p)
      = [Some ''http://h/transaction/deal-2'', Some ''http://h/transaction/deal-5'']"
    by (simp add: tu fetch_failed_def example_defs)
  moreover have "\<not> fetch_failed example_world ''http://h/transaction/deal-6''"
    by (simp add: fetch_failed_def example_defs)
  ultimately show ?thesis using h a(1) by (intro exI [of _ p]) simp
qed

text \<open>
  C10. For an empty result, \<open>save_to_json\<close> still writes a document, with
  \<open>total_properties\<close> 0 and an empty \<open>properties\<close> array, and \<open>save_to_csv\<close> writes no
  file.
\<close>

theorem C10_empty_result:
  "save_to_json [] filename stamp
     = [(filename, JsonFile (VDict [(''scraped_at'', VStr stamp),
                                    (''total_properties'', VInt 0),
                                    (''properties'', VList [])]))]
   \<and> save_to_csv [] properties_file transactions_file = []"
  by (simp add: save_to_json_def save_to_csv_def properties_data_def transactions_data_def)

end
